theory Spec2Isabelle
  imports
    Main
    "HOL-Library.Sublist"
    "HOL-Library.Product_Lexorder"
    "HOL-Library.Log_Nat"
begin

section \<open>Flight schedule parser: text, timestamps and prices\<close>

text \<open>
  The development embeds \<^verbatim>\<open>flight_parser.py\<close>. Text is a \<^typ>\<open>string\<close>: one
  \<^typ>\<open>char\<close> per code point, for the code points 0 to 255. The arrow U+2192 that the
  diagnostics contain lies outside that range and is written as the three bytes of its
  UTF-8 encoding, the form in which it reaches \<^verbatim>\<open>errors.txt\<close>. The functions of
  Python's library that the program calls (\<^verbatim>\<open>str.strip\<close>, \<^verbatim>\<open>str.split\<close>,
  \<^verbatim>\<open>str.isalnum\<close>, \<^verbatim>\<open>datetime.strptime\<close>, \<^verbatim>\<open>float\<close>, ...) are modelled
  after CPython 3 and carry the prefix \<open>py_\<close> where their name is not already the
  program's.
\<close>

subsection \<open>Character classes of \<^verbatim>\<open>str\<close>\<close>

definition ord :: "char \<Rightarrow> nat" where
  "ord c = of_char c"

definition in_range :: "nat \<Rightarrow> nat \<Rightarrow> char \<Rightarrow> bool" where
  "in_range lo hi c = (lo \<le> ord c \<and> ord c \<le> hi)"

text \<open>\<^verbatim>\<open>str.isspace\<close> for one character; also the class \<^verbatim>\<open>\s\<close> of \<^verbatim>\<open>re\<close>.\<close>

definition py_isspace_char :: "char \<Rightarrow> bool" where
  "py_isspace_char c =
     (in_range 9 13 c \<or> in_range 28 32 c \<or> ord c = 133 \<or> ord c = 160)"

text \<open>The decimal digits (category Nd); also the class \<^verbatim>\<open>\d\<close> of \<^verbatim>\<open>re\<close>.\<close>

definition py_isdecimal_char :: "char \<Rightarrow> bool" where
  "py_isdecimal_char c = in_range 48 57 c"

definition py_isupper_char :: "char \<Rightarrow> bool" where
  "py_isupper_char c = (in_range 65 90 c \<or> in_range 192 214 c \<or> in_range 216 222 c)"

definition py_islower_char :: "char \<Rightarrow> bool" where
  "py_islower_char c =
     (in_range 97 122 c \<or> ord c = 170 \<or> ord c = 181 \<or> ord c = 186 \<or>
      in_range 223 246 c \<or> in_range 248 255 c)"

definition py_isalpha_char :: "char \<Rightarrow> bool" where
  "py_isalpha_char c = (py_isupper_char c \<or> py_islower_char c)"

text \<open>
  \<^verbatim>\<open>str.isalnum\<close> holds of a character that is alphabetic, decimal, a digit
  (superscripts one to three) or numeric (the fractions).
\<close>

definition py_isalnum_char :: "char \<Rightarrow> bool" where
  "py_isalnum_char c =
     (py_isalpha_char c \<or> py_isdecimal_char c \<or> ord c = 178 \<or> ord c = 179 \<or>
      ord c = 185 \<or> in_range 188 190 c)"

definition py_isalnum :: "string \<Rightarrow> bool" where
  "py_isalnum s = (s \<noteq> [] \<and> list_all py_isalnum_char s)"

definition py_isalpha :: "string \<Rightarrow> bool" where
  "py_isalpha s = (s \<noteq> [] \<and> list_all py_isalpha_char s)"

text \<open>\<^verbatim>\<open>str.isupper\<close>: some cased character, and no lowercase one.\<close>

definition py_isupper :: "string \<Rightarrow> bool" where
  "py_isupper s = (list_ex py_isupper_char s \<and> \<not> list_ex py_islower_char s)"

definition py_lower_char :: "char \<Rightarrow> char" where
  "py_lower_char c = (if py_isupper_char c then char_of (ord c + 32) else c)"

definition py_lower :: "string \<Rightarrow> string" where
  "py_lower s = map py_lower_char s"

definition py_strip :: "string \<Rightarrow> string" where
  "py_strip s = rev (dropWhile py_isspace_char (rev (dropWhile py_isspace_char s)))"

text \<open>\<^verbatim>\<open>s.rstrip("\n")\<close>\<close>

definition py_rstrip_nl :: "string \<Rightarrow> string" where
  "py_rstrip_nl s = rev (dropWhile (\<lambda>c. c = CHR 0x0A) (rev s))"

text \<open>\<^verbatim>\<open>s.split(",")\<close>: never empty, one part more than there are commas.\<close>

fun py_split_comma :: "string \<Rightarrow> string list" where
  "py_split_comma [] = [[]]"
| "py_split_comma (c # cs) =
     (if c = CHR '','' then [] # py_split_comma cs
      else (case py_split_comma cs of
              [] \<Rightarrow> [[c]]
            | p # ps \<Rightarrow> (c # p) # ps))"

text \<open>\<^verbatim>\<open>sep.join(xs)\<close>\<close>

fun py_join :: "string \<Rightarrow> string list \<Rightarrow> string" where
  "py_join sep [] = []"
| "py_join sep [x] = x"
| "py_join sep (x # y # ys) = x @ sep @ py_join sep (y # ys)"

definition py_startswith :: "string \<Rightarrow> string \<Rightarrow> bool" where
  "py_startswith s p = (take (length p) s = p)"

text \<open>\<^verbatim>\<open>str(n)\<close> of an integer, as the f-strings format a line number.\<close>

definition digit_char :: "nat \<Rightarrow> char" where
  "digit_char d = char_of (48 + d)"

function str_nat :: "nat \<Rightarrow> string" where
  "str_nat n = (if n < 10 then [digit_char n] else str_nat (n div 10) @ [digit_char (n mod 10)])"
  by pat_completeness auto
termination
  by (relation "measure id") auto

definition py_str_int :: "int \<Rightarrow> string" where
  "py_str_int i = (if i < 0 then CHR ''-'' # str_nat (nat (- i)) else str_nat (nat i))"

text \<open>The arrow U+2192 of the diagnostics, in UTF-8.\<close>

definition arrow :: string where
  "arrow = [CHR 0xE2, CHR 0x86, CHR 0x92]"

subsection \<open>\<^verbatim>\<open>datetime.strptime(value, DATE_FORMAT)\<close>\<close>

text \<open>
  \<^verbatim>\<open>DATE_FORMAT = "%Y-%m-%d %H:%M"\<close>. CPython's \<^verbatim>\<open>_strptime\<close> turns the format into
  the regular expression
  \<^verbatim>\<open>(?P<Y>\d\d\d\d)-(?P<m>1[0-2]|0[1-9]|[1-9])-(?P<d>3[0-1]|[1-2]\d|0[1-9]|[1-9]| [1-9])\s+(?P<H>2[0-3]|[0-1]\d|\d):(?P<M>[0-5]\d|\d)\<close>
  (the blank of the format becomes \<^verbatim>\<open>\s+\<close>), matches it at the start of the text,
  raises \<^verbatim>\<open>ValueError\<close> when there is no match or when text remains after the
  match, and then builds the date, which raises \<^verbatim>\<open>ValueError\<close> for year 0 and for a
  day the month does not have. As the library's documentation notes, the leading zero is
  optional for \<^verbatim>\<open>%m\<close>, \<^verbatim>\<open>%d\<close>, \<^verbatim>\<open>%H\<close> and \<^verbatim>\<open>%M\<close>: the last alternative
  of each group is a single digit.

  A matcher is modelled by the list of its matches in the order in which the backtracking
  engine of \<^verbatim>\<open>re\<close> tries them: each match is the value read and the text left. The
  match \<^verbatim>\<open>re.match\<close> returns is the first of the list.
\<close>

type_synonym datetime = "nat \<times> nat \<times> nat \<times> nat \<times> nat"

type_synonym 'a matcher = "string \<Rightarrow> ('a \<times> string) list"

definition digit_val :: "char \<Rightarrow> nat" where
  "digit_val c = ord c - 48"

text \<open>One character of a class, read as a digit.\<close>

definition rx_class :: "(char \<Rightarrow> bool) \<Rightarrow> nat matcher" where
  "rx_class P s = (case s of [] \<Rightarrow> [] | c # r \<Rightarrow> if P c then [(digit_val c, r)] else [])"

definition rx_char :: "char \<Rightarrow> nat matcher" where
  "rx_char x = rx_class (\<lambda>c. c = x)"

definition rx_digit :: "nat matcher" where
  "rx_digit = rx_class py_isdecimal_char"

text \<open>Two characters of two classes, read as a two-digit number.\<close>

definition rx_two :: "(char \<Rightarrow> bool) \<Rightarrow> (char \<Rightarrow> bool) \<Rightarrow> nat matcher" where
  "rx_two P Q s =
     concat (map (\<lambda>(a, r). map (\<lambda>(b, r'). (10 * a + b, r')) (rx_class Q r)) (rx_class P s))"

definition rx_Y :: "nat matcher" where
  "rx_Y s =
     concat (map (\<lambda>(a, r). map (\<lambda>(b, r'). (100 * a + b, r'))
       (rx_two py_isdecimal_char py_isdecimal_char r))
       (rx_two py_isdecimal_char py_isdecimal_char s))"

definition rx_m :: "nat matcher" where
  "rx_m s =
     rx_two (\<lambda>c. c = CHR ''1'') (in_range 48 50) s @
     rx_two (\<lambda>c. c = CHR ''0'') (in_range 49 57) s @
     rx_class (in_range 49 57) s"

text \<open>The last alternative of \<^verbatim>\<open>%d\<close> is a blank and a digit; \<^verbatim>\<open>int(" 5")\<close> is 5.\<close>

definition rx_d :: "nat matcher" where
  "rx_d s =
     rx_two (\<lambda>c. c = CHR ''3'') (in_range 48 49) s @
     rx_two (in_range 49 50) py_isdecimal_char s @
     rx_two (\<lambda>c. c = CHR ''0'') (in_range 49 57) s @
     rx_class (in_range 49 57) s @
     concat (map (\<lambda>(a, r). rx_class (in_range 49 57) r) (rx_char CHR '' '' s))"

definition rx_H :: "nat matcher" where
  "rx_H s =
     rx_two (\<lambda>c. c = CHR ''2'') (in_range 48 51) s @
     rx_two (in_range 48 49) py_isdecimal_char s @
     rx_digit s"

definition rx_M :: "nat matcher" where
  "rx_M s = rx_two (in_range 48 53) py_isdecimal_char s @ rx_digit s"

text \<open>\<^verbatim>\<open>\s+\<close> is greedy: the longest run of blanks first, then each shorter one.\<close>

fun rx_spaces :: "string \<Rightarrow> string list" where
  "rx_spaces [] = []"
| "rx_spaces (c # r) = (if py_isspace_char c then rx_spaces r @ [r] else [])"

definition date_regex :: "datetime matcher" where
  "date_regex s =
     concat (map (\<lambda>(y, r1).
     concat (map (\<lambda>(u1, r2).
     concat (map (\<lambda>(m, r3).
     concat (map (\<lambda>(u2, r4).
     concat (map (\<lambda>(d, r5).
     concat (map (\<lambda>r6.
     concat (map (\<lambda>(h, r7).
     concat (map (\<lambda>(u3, r8).
             map (\<lambda>(mi, r9). ((y, m, d, h, mi), r9)) (rx_M r8))
       (rx_char CHR '':'' r7)))
       (rx_H r6)))
       (rx_spaces r5)))
       (rx_d r4)))
       (rx_char CHR ''-'' r3)))
       (rx_m r2)))
       (rx_char CHR ''-'' r1)))
       (rx_Y s))"

definition is_leap :: "nat \<Rightarrow> bool" where
  "is_leap y = (y mod 4 = 0 \<and> (y mod 100 \<noteq> 0 \<or> y mod 400 = 0))"

definition days_in_month :: "nat \<Rightarrow> nat \<Rightarrow> nat" where
  "days_in_month y m =
     (if m = 2 then (if is_leap y then 29 else 28)
      else if m = 4 \<or> m = 6 \<or> m = 9 \<or> m = 11 then 30 else 31)"

text \<open>The dates \<^verbatim>\<open>datetime\<close> can build; a value the regular expression read has a
  month from 1 to 12, an hour below 24 and a minute below 60 already.\<close>

definition valid_datetime :: "datetime \<Rightarrow> bool" where
  "valid_datetime dt =
     (case dt of (y, m, d, h, mi) \<Rightarrow>
        1 \<le> y \<and> y \<le> 9999 \<and> 1 \<le> m \<and> m \<le> 12 \<and> 1 \<le> d \<and> d \<le> days_in_month y m \<and>
        h < 24 \<and> mi < 60)"

text \<open>\<open>None\<close> is \<^verbatim>\<open>ValueError\<close>.\<close>

definition strptime :: "string \<Rightarrow> datetime option" where
  "strptime s =
     (case date_regex s of
        [] \<Rightarrow> None
      | (dt, rest) # _ \<Rightarrow>
          if rest \<noteq> [] then None
          else if valid_datetime dt then Some dt
          else None)"

subsection \<open>\<^verbatim>\<open>float\<close>: the values and their comparisons\<close>

text \<open>
  A \<^verbatim>\<open>float\<close> is an IEEE 754 binary64 value: a rational that binary64 represents
  (the two zeros are one value here; the program only compares), an infinity, or NaN.
  Every comparison with NaN is false.
\<close>

datatype pyfloat = Finite rat | PosInf | NegInf | NaN

fun flt_lt :: "pyfloat \<Rightarrow> pyfloat \<Rightarrow> bool" where
  "flt_lt (Finite a) (Finite b) = (a < b)"
| "flt_lt (Finite a) PosInf = True"
| "flt_lt NegInf (Finite b) = True"
| "flt_lt NegInf PosInf = True"
| "flt_lt x y = False"

fun flt_eq :: "pyfloat \<Rightarrow> pyfloat \<Rightarrow> bool" where
  "flt_eq (Finite a) (Finite b) = (a = b)"
| "flt_eq PosInf PosInf = True"
| "flt_eq NegInf NegInf = True"
| "flt_eq x y = False"

definition flt_gt :: "pyfloat \<Rightarrow> pyfloat \<Rightarrow> bool" where
  "flt_gt x y = flt_lt y x"

definition flt_le :: "pyfloat \<Rightarrow> pyfloat \<Rightarrow> bool" where
  "flt_le x y = (flt_lt x y \<or> flt_eq x y)"

text \<open>\<open>n / d\<close> rounded to the nearest integer, a tie to the even one.\<close>

definition round_half_even :: "nat \<Rightarrow> nat \<Rightarrow> nat" where
  "round_half_even n d =
     (let k = n div d; r = n mod d
      in if 2 * r < d then k
         else if d < 2 * r then k + 1
         else if even k then k else k + 1)"

text \<open>The integer part of the binary logarithm of \<open>p / q\<close>, for positive \<open>p\<close> and \<open>q\<close>.\<close>

definition floor_log2 :: "nat \<Rightarrow> nat \<Rightarrow> int" where
  "floor_log2 p q =
     (let e = int (floorlog 2 p) - int (floorlog 2 q)
      in if q * 2 ^ nat e \<le> p * 2 ^ nat (- e) then e else e - 1)"

text \<open>
  The binary64 value nearest to \<open>p / q\<close> (negated when \<open>neg\<close>), ties to even: 53
  significant bits, the exponent not below \<open>-1022\<close> (so a tiny value becomes subnormal or
  zero), and an infinity from \<open>2 ^ 1024\<close> on.
\<close>

definition round_double :: "bool \<Rightarrow> nat \<Rightarrow> nat \<Rightarrow> pyfloat" where
  "round_double neg p q =
     (if p = 0 then Finite 0
      else
        let e = max (floor_log2 p q) (- 1022);
            s = e - 52;
            m = round_half_even (p * 2 ^ nat (- s)) (q * 2 ^ nat s);
            v = rat_of_nat (m * 2 ^ nat s) / rat_of_nat (2 ^ nat (- s))
        in if 2 ^ 1024 \<le> v then (if neg then NegInf else PosInf)
           else Finite (if neg then - v else v))"

subsection \<open>\<^verbatim>\<open>float(s)\<close> of a string\<close>

text \<open>
  CPython's \<^verbatim>\<open>PyFloat_FromString\<close>: the text is made ASCII (a blank beyond ASCII
  becomes a space; any other character beyond ASCII becomes a question mark and ends the
  text), underscores between digits are removed, the blanks of C at both ends are dropped,
  and \<^verbatim>\<open>PyOS_string_to_double\<close> must read all that is left: a decimal numeral with
  an optional sign, fraction and exponent, or an infinity or NaN. \<open>None\<close> is
  \<^verbatim>\<open>ValueError\<close>.
\<close>

definition c_isdigit :: "char \<Rightarrow> bool" where
  "c_isdigit c = in_range 48 57 c"

definition c_isspace :: "char \<Rightarrow> bool" where
  "c_isspace c = (in_range 9 13 c \<or> ord c = 32)"

definition c_tolower :: "char \<Rightarrow> char" where
  "c_tolower c = (if in_range 65 90 c then char_of (ord c + 32) else c)"

fun transform_loop :: "string \<Rightarrow> string" where
  "transform_loop [] = []"
| "transform_loop (c # r) =
     (if ord c < 127 then c # transform_loop r
      else if py_isspace_char c then CHR '' '' # transform_loop r
      else [CHR ''?''])"

definition transform_decimal_and_space :: "string \<Rightarrow> string" where
  "transform_decimal_and_space s = (if list_all (\<lambda>c. ord c < 128) s then s else transform_loop s)"

fun underscores_loop :: "char \<Rightarrow> string \<Rightarrow> string option" where
  "underscores_loop prev [] = (if prev = CHR ''_'' then None else Some [])"
| "underscores_loop prev (c # r) =
     (if c = CHR ''_'' then
        (if \<not> c_isdigit prev then None else underscores_loop c r)
      else if prev = CHR ''_'' \<and> \<not> c_isdigit c then None
      else map_option ((#) c) (underscores_loop c r))"

definition nat_of_digits :: "string \<Rightarrow> nat" where
  "nat_of_digits ds = foldl (\<lambda>n c. 10 * n + digit_val c) 0 ds"

definition parse_sign :: "string \<Rightarrow> bool \<times> string" where
  "parse_sign s =
     (case s of
        [] \<Rightarrow> (False, s)
      | c # r \<Rightarrow> if c = CHR ''-'' then (True, r) else if c = CHR ''+'' then (False, r) else (False, s))"

text \<open>An exponent is read only when a digit follows the \<open>e\<close> and its sign.\<close>

definition parse_exponent :: "string \<Rightarrow> int \<times> string" where
  "parse_exponent s =
     (case s of
        [] \<Rightarrow> (0, s)
      | c # r \<Rightarrow>
          if c = CHR ''e'' \<or> c = CHR ''E'' then
            (let (eneg, r1) = parse_sign r; ds = takeWhile c_isdigit r1
             in if ds = [] then (0, s)
                else ((if eneg then - int (nat_of_digits ds) else int (nat_of_digits ds)),
                      dropWhile c_isdigit r1))
          else (0, s))"

text \<open>The digits \<open>ds\<close> read as an integer, times ten to the power \<open>k\<close>, as a binary64.\<close>

definition decimal_value :: "bool \<Rightarrow> string \<Rightarrow> int \<Rightarrow> pyfloat" where
  "decimal_value neg ds k =
     (if 0 \<le> k then round_double neg (nat_of_digits ds * 10 ^ nat k) 1
      else round_double neg (nat_of_digits ds) (10 ^ nat (- k)))"

text \<open>\<^verbatim>\<open>_Py_dg_strtod\<close>: the value and the text left; \<open>None\<close> when no digit is read.\<close>

definition dg_strtod :: "string \<Rightarrow> (pyfloat \<times> string) option" where
  "dg_strtod s =
     (let (neg, s1) = parse_sign s;
          ip = takeWhile c_isdigit s1;
          s2 = dropWhile c_isdigit s1;
          (fp, s3) = (case s2 of
                        [] \<Rightarrow> ([], s2)
                      | c # r \<Rightarrow> if c = CHR ''.''
                                 then (takeWhile c_isdigit r, dropWhile c_isdigit r)
                                 else ([], s2))
      in if ip = [] \<and> fp = [] then None
         else let (ex, s4) = parse_exponent s3
              in Some (decimal_value neg (ip @ fp) (ex - int (length fp)), s4))"

text \<open>\<^verbatim>\<open>_Py_parse_inf_or_nan\<close>, without regard to case.\<close>

definition parse_inf_or_nan :: "string \<Rightarrow> (pyfloat \<times> string) option" where
  "parse_inf_or_nan s =
     (let (neg, s1) = parse_sign s
      in if map c_tolower (take 3 s1) = ''inf'' then
           Some ((if neg then NegInf else PosInf),
                 (if map c_tolower (take 5 (drop 3 s1)) = ''inity'' then drop 8 s1 else drop 3 s1))
         else if map c_tolower (take 3 s1) = ''nan'' then Some (NaN, drop 3 s1)
         else None)"

definition string_to_double :: "string \<Rightarrow> (pyfloat \<times> string) option" where
  "string_to_double s = (case dg_strtod s of Some r \<Rightarrow> Some r | None \<Rightarrow> parse_inf_or_nan s)"

definition float_from_string_inner :: "string \<Rightarrow> pyfloat option" where
  "float_from_string_inner s =
     (let s1 = dropWhile c_isspace s
      in if s1 = [] then None
         else (case string_to_double (rev (dropWhile c_isspace (rev s1))) of
                 None \<Rightarrow> None
               | Some (x, rest) \<Rightarrow> if rest \<noteq> [] then None else Some x))"

definition py_float_str :: "string \<Rightarrow> pyfloat option" where
  "py_float_str s =
     (let t = transform_decimal_and_space s
      in if CHR ''_'' \<notin> set t then float_from_string_inner t
         else (case underscores_loop (CHR 0x00) t of
                 None \<Rightarrow> None
               | Some u \<Rightarrow> float_from_string_inner u))"

section \<open>The record validator\<close>

text \<open>
  A flight is the dictionary that \<^verbatim>\<open>validate_and_build_flight\<close> builds, with its six
  keys as fields. The price is \<^verbatim>\<open>float | None\<close> in the source.
\<close>

record flight =
  flight_id :: string
  origin :: string
  destination :: string
  departure_datetime :: string
  arrival_datetime :: string
  price :: "pyfloat option"

definition VALID_AIRPORTS :: "string set" where
  "VALID_AIRPORTS =
     {''LHR'', ''JFK'', ''FRA'', ''RIX'', ''OSL'', ''HEL'', ''ARN'',
      ''CDG'', ''DXB'', ''DOH'', ''SYD'', ''AMS'', ''BRU'', ''LAX''}"

text \<open>
  \<^verbatim>\<open>parse_datetime\<close> appends to the list it is given; the model returns the list with
  the timestamp.
\<close>

definition parse_datetime ::
  "string \<Rightarrow> string \<Rightarrow> string list \<Rightarrow> datetime option \<times> string list" where
  "parse_datetime v kind errors =
     (case strptime v of
        Some dt \<Rightarrow> (Some dt, errors)
      | None \<Rightarrow> (None, errors @ [''invalid '' @ kind @ '' datetime'']))"

text \<open>
  \<^verbatim>\<open>check_airport\<close> is a closure over \<^verbatim>\<open>issues\<close>; the model takes the list and
  returns it.
\<close>

definition check_airport :: "string \<Rightarrow> string \<Rightarrow> string list \<Rightarrow> string list" where
  "check_airport code kind issues =
     (if \<not> (length code = 3 \<and> py_isalpha code \<and> py_isupper code)
      then issues @ [''invalid '' @ kind @ '' code'']
      else if code \<notin> VALID_AIRPORTS
      then issues @ [''invalid '' @ kind @ '' code'']
      else issues)"

text \<open>The first block of the validator: \<^verbatim>\<open>flight_id\<close>, two to eight alphanumerics.\<close>

definition check_flight_id :: "string \<Rightarrow> string list \<Rightarrow> string list" where
  "check_flight_id fid issues =
     (if \<not> (2 \<le> length fid \<and> length fid \<le> 8 \<and> py_isalnum fid) then
        (if length fid > 8 then issues @ [''flight_id too long (more than 8 characters)'']
         else if length fid < 2 then issues @ [''flight_id too short (less than 2 characters)'']
         else issues @ [''invalid flight_id''])
      else issues)"

text \<open>The block \<^verbatim>\<open>if dep_dt and arr_dt and arr_dt <= dep_dt\<close>; a \<^verbatim>\<open>datetime\<close> is
  always true, so \<^verbatim>\<open>dep_dt\<close> is false only when it is \<^verbatim>\<open>None\<close>.\<close>

definition check_order ::
  "datetime option \<Rightarrow> datetime option \<Rightarrow> string list \<Rightarrow> string list" where
  "check_order dep_dt arr_dt issues =
     (case dep_dt of
        None \<Rightarrow> issues
      | Some d \<Rightarrow>
          (case arr_dt of
             None \<Rightarrow> issues
           | Some a \<Rightarrow> if a \<le> d then issues @ [''arrival before departure''] else issues))"

text \<open>The block \<^verbatim>\<open>try: price = float(price_str) ... except ValueError\<close>.\<close>

definition check_price :: "string \<Rightarrow> string list \<Rightarrow> pyfloat option \<times> string list" where
  "check_price price_str issues =
     (case py_float_str price_str of
        Some p \<Rightarrow>
          (Some p,
           if flt_lt p (Finite 0) then issues @ [''negative price value'']
           else if flt_eq p (Finite 0) then issues @ [''non-positive price value'']
           else issues)
      | None \<Rightarrow> (None, issues @ [''invalid price value'']))"

definition line_prefix :: "int \<Rightarrow> string \<Rightarrow> string" where
  "line_prefix lineno line = ''Line '' @ py_str_int lineno @ '': '' @ line @ '' '' @ arrow @ '' ''"

text \<open>The issues of a line of six parts, in the order the validator collects them.\<close>

definition collect_issues :: "string list \<Rightarrow> pyfloat option \<times> string list" where
  "collect_issues parts =
     (let issues0 = [];
          issues1 = check_flight_id (parts ! 0) issues0;
          issues2 = check_airport (parts ! 1) ''origin'' issues1;
          issues3 = check_airport (parts ! 2) ''destination'' issues2;
          dt_issues0 = [];
          (dep_dt, dt_issues1) = parse_datetime (parts ! 3) ''departure'' dt_issues0;
          (arr_dt, dt_issues2) = parse_datetime (parts ! 4) ''arrival'' dt_issues1;
          issues4 = issues3 @ dt_issues2;
          issues5 = check_order dep_dt arr_dt issues4
      in check_price (parts ! 5) issues5)"

definition validate_and_build_flight :: "string \<Rightarrow> int \<Rightarrow> flight option \<times> string option" where
  "validate_and_build_flight line lineno =
     (let parts = map py_strip (py_split_comma line)
      in if length parts \<noteq> 6
         then (None, Some (line_prefix lineno line @ ''missing required fields''))
         else
           let (price_val, issues) = collect_issues parts
           in if issues \<noteq> []
              then (None, Some (line_prefix lineno line @ py_join '', '' issues))
              else (Some \<lparr>flight_id = parts ! 0, origin = parts ! 1, destination = parts ! 2,
                          departure_datetime = parts ! 3, arrival_datetime = parts ! 4,
                          price = price_val\<rparr>,
                    None))"

section \<open>The ingestion pass\<close>

definition HEADER :: string where
  "HEADER = ''flight_id,origin,destination,departure_datetime,arrival_datetime,price''"

text \<open>
  The body of the loop of \<^verbatim>\<open>parse_csv_file\<close> for one line and its number, on the two
  lists the function appends to. \<^verbatim>\<open>if err\<close> holds of a string that is not empty,
  \<^verbatim>\<open>elif flight\<close> of every flight (a dictionary of six keys).
\<close>

definition parse_line ::
  "int \<Rightarrow> string \<Rightarrow> flight list \<times> string list \<Rightarrow> flight list \<times> string list" where
  "parse_line lineno raw_line st =
     (case st of (valid_flights, error_lines) \<Rightarrow>
        let line = py_rstrip_nl raw_line;
            stripped = py_strip line
        in if stripped = [] then st
           else if lineno = 1 \<and> py_startswith (py_lower stripped) HEADER then st
           else if py_startswith stripped ''#''
           then (valid_flights,
                 error_lines @ [''Line '' @ py_str_int lineno @ '': '' @ stripped @ '' '' @ arrow @
                                '' comment line, ignored for data parsing''])
           else
             (case validate_and_build_flight line lineno of
                (fl, err) \<Rightarrow>
                  (case err of
                     Some e \<Rightarrow>
                       if e \<noteq> [] then (valid_flights, error_lines @ [e])
                       else (case fl of
                               Some f \<Rightarrow> (valid_flights @ [f], error_lines)
                             | None \<Rightarrow> st)
                   | None \<Rightarrow>
                       (case fl of
                          Some f \<Rightarrow> (valid_flights @ [f], error_lines)
                        | None \<Rightarrow> st))))"

fun parse_lines ::
  "int \<Rightarrow> string list \<Rightarrow> flight list \<times> string list \<Rightarrow> flight list \<times> string list" where
  "parse_lines lineno [] st = st"
| "parse_lines lineno (raw_line # rest) st = parse_lines (lineno + 1) rest (parse_line lineno raw_line st)"

text \<open>The file is the list of its lines, which \<^verbatim>\<open>enumerate(f, start=1)\<close> numbers.\<close>

definition parse_csv_file ::
  "string list \<Rightarrow> flight list \<Rightarrow> string list \<Rightarrow> flight list \<times> string list" where
  "parse_csv_file f valid_flights error_lines = parse_lines 1 f (valid_flights, error_lines)"

section \<open>The query matcher\<close>

text \<open>
  A query is a JSON object, any JSON value under any key; \<^verbatim>\<open>json.load\<close> also reads
  \<^verbatim>\<open>NaN\<close> and \<^verbatim>\<open>Infinity\<close> as numbers.
\<close>

datatype json =
  JNull | JBool bool | JInt int | JFloat pyfloat | JStr string
  | JArr "json list" | JObj "(string \<times> json) list"

type_synonym query = "string \<rightharpoonup> json"

datatype error = ValueError | TypeError | OverflowError

text \<open>\<^verbatim>\<open>datetime.strptime\<close> of a value of a query: only a string is accepted.\<close>

definition strptime_json :: "json \<Rightarrow> error + datetime" where
  "strptime_json v =
     (case v of
        JStr s \<Rightarrow> (case strptime s of None \<Rightarrow> Inl ValueError | Some dt \<Rightarrow> Inr dt)
      | _ \<Rightarrow> Inl TypeError)"

text \<open>\<^verbatim>\<open>float(v)\<close> of a JSON value; an integer too large for a float overflows.\<close>

definition py_float :: "json \<Rightarrow> error + pyfloat" where
  "py_float v =
     (case v of
        JFloat x \<Rightarrow> Inr x
      | JInt i \<Rightarrow>
          (case round_double (i < 0) (nat \<bar>i\<bar>) 1 of
             Finite x \<Rightarrow> Inr (Finite x)
           | _ \<Rightarrow> Inl OverflowError)
      | JBool b \<Rightarrow> Inr (Finite (if b then 1 else 0))
      | JStr s \<Rightarrow> (case py_float_str s of None \<Rightarrow> Inl ValueError | Some x \<Rightarrow> Inr x)
      | _ \<Rightarrow> Inl TypeError)"

text \<open>\<^verbatim>\<open>float(flight["price"])\<close>\<close>

definition float_of_price :: "pyfloat option \<Rightarrow> error + pyfloat" where
  "float_of_price p = (case p of None \<Rightarrow> Inl TypeError | Some x \<Rightarrow> Inr x)"

text \<open>\<^verbatim>\<open>flight.get(field)\<close> for the three fields compared for equality.\<close>

definition flight_get :: "flight \<Rightarrow> string \<Rightarrow> json option" where
  "flight_get f field =
     (if field = ''flight_id'' then Some (JStr (flight_id f))
      else if field = ''origin'' then Some (JStr (origin f))
      else if field = ''destination'' then Some (JStr (destination f))
      else None)"

text \<open>
  The inner loop over the three fields: the value of \<^verbatim>\<open>ok\<close> when it ends. A string
  equals a JSON value only when the value is the same string.
\<close>

fun exact_matches :: "query \<Rightarrow> flight \<Rightarrow> string list \<Rightarrow> bool" where
  "exact_matches q f [] = True"
| "exact_matches q f (field # rest) =
     (case q field of
        None \<Rightarrow> exact_matches q f rest
      | Some v \<Rightarrow> if flight_get f field \<noteq> Some v then False else exact_matches q f rest)"

text \<open>
  The body of the loop over the flights: whether the flight is appended, or the
  exception that ends the call.
\<close>

definition flight_matches ::
  "query \<Rightarrow> datetime option \<Rightarrow> datetime option \<Rightarrow> flight \<Rightarrow> error + bool" where
  "flight_matches q dep_filter_dt arr_filter_dt f =
     (if \<not> exact_matches q f [''flight_id'', ''origin'', ''destination''] then Inr False
      else
        case (case dep_filter_dt of
                None \<Rightarrow> Inr True
              | Some dep_bound \<Rightarrow>
                  (case strptime (departure_datetime f) of
                     None \<Rightarrow> Inl ValueError
                   | Some flight_dep \<Rightarrow> Inr (\<not> flight_dep < dep_bound))) of
          Inl e \<Rightarrow> Inl e
        | Inr False \<Rightarrow> Inr False
        | Inr True \<Rightarrow>
            (case (case arr_filter_dt of
                     None \<Rightarrow> Inr True
                   | Some arr_bound \<Rightarrow>
                       (case strptime (arrival_datetime f) of
                          None \<Rightarrow> Inl ValueError
                        | Some flight_arr \<Rightarrow> Inr (\<not> flight_arr > arr_bound))) of
               Inl e \<Rightarrow> Inl e
             | Inr False \<Rightarrow> Inr False
             | Inr True \<Rightarrow>
                 (case q ''price'' of
                    None \<Rightarrow> Inr True
                  | Some v \<Rightarrow>
                      (case float_of_price (price f) of
                         Inl e \<Rightarrow> Inl e
                       | Inr x \<Rightarrow>
                           (case py_float v of
                              Inl e \<Rightarrow> Inl e
                            | Inr y \<Rightarrow> Inr (\<not> flt_gt x y))))))"

fun filter_loop ::
  "query \<Rightarrow> datetime option \<Rightarrow> datetime option \<Rightarrow> flight list \<Rightarrow> flight list \<Rightarrow>
   error + flight list" where
  "filter_loop q dep_filter_dt arr_filter_dt [] matches = Inr matches"
| "filter_loop q dep_filter_dt arr_filter_dt (f # flights) matches =
     (case flight_matches q dep_filter_dt arr_filter_dt f of
        Inl e \<Rightarrow> Inl e
      | Inr ok \<Rightarrow>
          filter_loop q dep_filter_dt arr_filter_dt flights (if ok then matches @ [f] else matches))"

text \<open>The bound of a range filter: \<^verbatim>\<open>None\<close> when the key is absent.\<close>

definition filter_bound :: "query \<Rightarrow> string \<Rightarrow> error + datetime option" where
  "filter_bound q k =
     (case q k of
        None \<Rightarrow> Inr None
      | Some v \<Rightarrow> (case strptime_json v of Inl e \<Rightarrow> Inl e | Inr dt \<Rightarrow> Inr (Some dt)))"

definition filter_flights :: "flight list \<Rightarrow> query \<Rightarrow> error + flight list" where
  "filter_flights flights q =
     (case filter_bound q ''departure_datetime'' of
        Inl e \<Rightarrow> Inl e
      | Inr dep_filter_dt \<Rightarrow>
          (case filter_bound q ''arrival_datetime'' of
             Inl e \<Rightarrow> Inl e
           | Inr arr_filter_dt \<Rightarrow> filter_loop q dep_filter_dt arr_filter_dt flights []))"

section \<open>Notions the properties are stated with\<close>

text \<open>
  The zero-padded text \<^verbatim>\<open>YYYY-MM-DD HH:MM\<close> of a timestamp: four digits for the
  year, two for each other field.
\<close>

definition pad2 :: "nat \<Rightarrow> string" where
  "pad2 n = [digit_char (n div 10), digit_char (n mod 10)]"

definition pad4 :: "nat \<Rightarrow> string" where
  "pad4 n = pad2 (n div 100) @ pad2 (n mod 100)"

definition format_timestamp :: "datetime \<Rightarrow> string" where
  "format_timestamp dt =
     (case dt of (y, m, d, h, mi) \<Rightarrow>
        pad4 y @ ''-'' @ pad2 m @ ''-'' @ pad2 d @ '' '' @ pad2 h @ '':'' @ pad2 mi)"

text \<open>The kinds of line the ingestion pass tells apart, by the tests of its loop.\<close>

definition stripped_of :: "string \<Rightarrow> string" where
  "stripped_of raw_line = py_strip (py_rstrip_nl raw_line)"

definition is_blank :: "string \<Rightarrow> bool" where
  "is_blank raw_line = (stripped_of raw_line = [])"

definition is_header :: "int \<Rightarrow> string \<Rightarrow> bool" where
  "is_header lineno raw_line = (lineno = 1 \<and> py_startswith (py_lower (stripped_of raw_line)) HEADER)"

definition is_comment :: "string \<Rightarrow> bool" where
  "is_comment raw_line = py_startswith (stripped_of raw_line) ''#''"

text \<open>A data line is a line the loop hands to the validator.\<close>

definition is_data :: "int \<Rightarrow> string \<Rightarrow> bool" where
  "is_data lineno raw_line =
     (\<not> is_blank raw_line \<and> \<not> is_header lineno raw_line \<and> \<not> is_comment raw_line)"

text \<open>
  What the specification asks of a match, filter by filter: equality for the three
  text fields, the departure not before its bound, the arrival not after its bound, the
  price not above its bound; an absent key asks nothing.
\<close>

definition equals_field :: "query \<Rightarrow> string \<Rightarrow> string \<Rightarrow> bool" where
  "equals_field q k s = (case q k of None \<Rightarrow> True | Some v \<Rightarrow> v = JStr s)"

definition satisfies :: "query \<Rightarrow> flight \<Rightarrow> bool" where
  "satisfies q f =
     (equals_field q ''flight_id'' (flight_id f) \<and>
      equals_field q ''origin'' (origin f) \<and>
      equals_field q ''destination'' (destination f) \<and>
      (case q ''departure_datetime'' of
         None \<Rightarrow> True
       | Some v \<Rightarrow>
           (case strptime_json v of
              Inl e \<Rightarrow> False
            | Inr bound \<Rightarrow>
                (case strptime (departure_datetime f) of
                   None \<Rightarrow> False
                 | Some dep \<Rightarrow> bound \<le> dep))) \<and>
      (case q ''arrival_datetime'' of
         None \<Rightarrow> True
       | Some v \<Rightarrow>
           (case strptime_json v of
              Inl e \<Rightarrow> False
            | Inr bound \<Rightarrow>
                (case strptime (arrival_datetime f) of
                   None \<Rightarrow> False
                 | Some arr \<Rightarrow> arr \<le> bound))) \<and>
      (case q ''price'' of
         None \<Rightarrow> True
       | Some v \<Rightarrow>
           (case py_float v of
              Inl e \<Rightarrow> False
            | Inr bound \<Rightarrow>
                (case price f of
                   None \<Rightarrow> False
                 | Some p \<Rightarrow> flt_le p bound))))"

text \<open>
  A well-formed flight has two timestamps that parse and a price that is a number; a
  well-formed query has range bounds that parse and a price that converts to a number.
\<close>

definition wf_flight :: "flight \<Rightarrow> bool" where
  "wf_flight f =
     (strptime (departure_datetime f) \<noteq> None \<and>
      strptime (arrival_datetime f) \<noteq> None \<and>
      (case price f of None \<Rightarrow> False | Some p \<Rightarrow> p \<noteq> NaN))"

definition wf_bound :: "query \<Rightarrow> string \<Rightarrow> bool" where
  "wf_bound q k =
     (case q k of
        None \<Rightarrow> True
      | Some v \<Rightarrow> (case strptime_json v of Inl e \<Rightarrow> False | Inr dt \<Rightarrow> True))"

definition wf_query :: "query \<Rightarrow> bool" where
  "wf_query q =
     (wf_bound q ''departure_datetime'' \<and>
      wf_bound q ''arrival_datetime'' \<and>
      (case q ''price'' of
         None \<Rightarrow> True
       | Some v \<Rightarrow> (case py_float v of Inl e \<Rightarrow> False | Inr b \<Rightarrow> b \<noteq> NaN)))"

text \<open>\<^verbatim>\<open>enumerate(f, start)\<close>: the lines of a file with their numbers.\<close>

fun py_enumerate :: "int \<Rightarrow> 'a list \<Rightarrow> (int \<times> 'a) list" where
  "py_enumerate start [] = []"
| "py_enumerate start (x # xs) = (start, x) # py_enumerate (start + 1) xs"

text \<open>
  What the specification has one line contribute to a pass. A blank line and the header
  contribute nothing; a comment line contributes one diagnostic, the notice that it is a
  comment; a data line contributes the validator's record, or else the validator's
  diagnostic.
\<close>

definition expected_records :: "int \<Rightarrow> string \<Rightarrow> flight list" where
  "expected_records lineno raw_line =
     (if is_data lineno raw_line
      then (case fst (validate_and_build_flight (py_rstrip_nl raw_line) lineno) of
              None \<Rightarrow> []
            | Some f \<Rightarrow> [f])
      else [])"

definition expected_diagnostics :: "int \<Rightarrow> string \<Rightarrow> string list" where
  "expected_diagnostics lineno raw_line =
     (if is_blank raw_line then []
      else if is_header lineno raw_line then []
      else if is_comment raw_line
      then [''Line '' @ py_str_int lineno @ '': '' @ stripped_of raw_line @ '' '' @ arrow @
            '' comment line, ignored for data parsing'']
      else (case fst (validate_and_build_flight (py_rstrip_nl raw_line) lineno) of
              Some f \<Rightarrow> []
            | None \<Rightarrow>
                (case snd (validate_and_build_flight (py_rstrip_nl raw_line) lineno) of
                   None \<Rightarrow> []
                 | Some e \<Rightarrow> [e])))"

text \<open>The keys of a query that the matcher reads.\<close>

definition recognized_keys :: "string set" where
  "recognized_keys =
     {''flight_id'', ''origin'', ''destination'', ''departure_datetime'', ''arrival_datetime'',
      ''price''}"

section \<open>Evaluation and basic facts\<close>

lemmas char_class_defs =
  py_isalpha_def py_isupper_def py_isalnum_def py_isalpha_char_def py_isupper_char_def
  py_islower_char_def py_isalnum_char_def py_isdecimal_char_def py_isspace_char_def
  in_range_def ord_def

lemmas strptime_defs =
  strptime_def date_regex_def rx_Y_def rx_m_def rx_d_def rx_H_def rx_M_def rx_two_def
  rx_class_def rx_char_def rx_digit_def in_range_def ord_def digit_val_def
  py_isdecimal_char_def py_isspace_char_def valid_datetime_def days_in_month_def is_leap_def

lemmas float_defs =
  py_float_str_def transform_decimal_and_space_def float_from_string_inner_def
  string_to_double_def dg_strtod_def parse_sign_def parse_exponent_def decimal_value_def
  parse_inf_or_nan_def nat_of_digits_def c_isdigit_def c_isspace_def c_tolower_def
  in_range_def ord_def digit_val_def

lemmas round_defs =
  round_double_def floor_log2_def round_half_even_def compute_floorlog Let_def

lemma digit_char_simps:
  "digit_char 0 = CHR ''0''" "digit_char 1 = CHR ''1''" "digit_char 2 = CHR ''2''"
  "digit_char 3 = CHR ''3''" "digit_char 4 = CHR ''4''" "digit_char 5 = CHR ''5''"
  "digit_char 6 = CHR ''6''" "digit_char 7 = CHR ''7''" "digit_char 8 = CHR ''8''"
  "digit_char 9 = CHR ''9''" "digit_char (Suc 0) = CHR ''1''"
  by (simp_all add: digit_char_def char_of_eq_iff)

lemmas str_int_defs = py_str_int_def digit_char_simps

section \<open>Airport codes\<close>

lemma whitelist_shape:
  "code \<in> VALID_AIRPORTS \<Longrightarrow> length code = 3 \<and> py_isalpha code \<and> py_isupper code"
  unfolding VALID_AIRPORTS_def
  by (elim insertE emptyE) (simp_all add: char_class_defs)

lemma check_airport_cases:
  "check_airport code kind issues =
     (if code \<in> VALID_AIRPORTS then issues else issues @ [''invalid '' @ kind @ '' code''])"
  using whitelist_shape [of code] by (simp add: check_airport_def)

text \<open>
  Claim C7. An airport code passes only when it has three characters, all alphabetic and
  upper case, and belongs to the whitelist; since every code of the whitelist has that
  shape, it passes exactly when it is on the whitelist. A code of the wrong shape
  (\<^verbatim>\<open>lhr\<close>) and a code of the right shape that is not listed (\<^verbatim>\<open>XXX\<close>) get the same
  issue text.
\<close>

theorem check_airport_whitelist:
  "check_airport code kind issues =
     (if length code = 3 \<and> py_isalpha code \<and> py_isupper code \<and> code \<in> VALID_AIRPORTS
      then issues else issues @ [''invalid '' @ kind @ '' code''])
   \<and> (check_airport code kind issues = issues) = (code \<in> VALID_AIRPORTS)
   \<and> check_airport ''LHR'' kind issues = issues
   \<and> check_airport ''lhr'' kind issues = issues @ [''invalid '' @ kind @ '' code'']
   \<and> check_airport ''XXX'' kind issues = issues @ [''invalid '' @ kind @ '' code'']"
proof -
  have a: "check_airport code kind issues =
     (if length code = 3 \<and> py_isalpha code \<and> py_isupper code \<and> code \<in> VALID_AIRPORTS
      then issues else issues @ [''invalid '' @ kind @ '' code''])"
    by (simp add: check_airport_def)
  have b: "(check_airport code kind issues = issues) = (code \<in> VALID_AIRPORTS)"
    by (simp add: check_airport_cases)
  have c: "''LHR'' \<in> VALID_AIRPORTS" "''lhr'' \<notin> VALID_AIRPORTS" "''XXX'' \<notin> VALID_AIRPORTS"
    by (simp_all add: VALID_AIRPORTS_def)
  have d: "check_airport ''LHR'' kind issues = issues"
    "check_airport ''lhr'' kind issues = issues @ [''invalid '' @ kind @ '' code'']"
    "check_airport ''XXX'' kind issues = issues @ [''invalid '' @ kind @ '' code'']"
    using c by (simp_all add: check_airport_cases)
  show ?thesis
    using a b d by blast
qed

theorem check_airport_whitelist_witness:
  "check_airport ''JFK'' ''origin'' [] = [] \<and>
   check_airport ''lhr'' ''origin'' [] = [''invalid origin code''] \<and>
   check_airport ''XXX'' ''origin'' [] = [''invalid origin code'']"
  using check_airport_whitelist [of "''JFK''" "''origin''" "[]"]
  by (simp add: VALID_AIRPORTS_def char_class_defs)

section \<open>The record validator: lines and fields\<close>

text \<open>
  Claim C4. A line that does not split on commas into exactly six fields fails with the
  single issue \<^verbatim>\<open>missing required fields\<close>: the diagnostic is the line prefix and
  that text, whatever the fields hold.
\<close>

theorem field_count_mismatch:
  "length (py_split_comma line) \<noteq> 6 \<Longrightarrow>
   validate_and_build_flight line lineno =
     (None, Some (''Line '' @ py_str_int lineno @ '': '' @ line @ '' '' @ arrow @ '' missing required fields''))"
  by (simp add: validate_and_build_flight_def line_prefix_def)

theorem field_count_mismatch_witness:
  "length (py_split_comma ''A,lhr,XXX,bad,worse'') \<noteq> 6 \<and>
   validate_and_build_flight ''A,lhr,XXX,bad,worse'' 12 =
     (None, Some (''Line 12: A,lhr,XXX,bad,worse '' @ arrow @ '' missing required fields''))"
  using field_count_mismatch [of "''A,lhr,XXX,bad,worse''" 12]
  by (simp add: str_int_defs)


lemma check_flight_id_append: "check_flight_id fid issues = issues @ check_flight_id fid []"
  by (simp add: check_flight_id_def)

lemma check_flight_id_ok:
  "(check_flight_id fid [] = []) = (2 \<le> length fid \<and> length fid \<le> 8 \<and> py_isalnum fid)"
  by (simp add: check_flight_id_def)

lemma check_airport_append: "check_airport code kind issues = issues @ check_airport code kind []"
  by (simp add: check_airport_def)

lemma check_airport_ok: "(check_airport code kind [] = []) = (code \<in> VALID_AIRPORTS)"
  by (simp add: check_airport_cases)

lemma parse_datetime_fst: "fst (parse_datetime v kind errors) = strptime v"
  by (simp add: parse_datetime_def split: option.splits)

lemma parse_datetime_snd:
  "snd (parse_datetime v kind errors) = errors @ snd (parse_datetime v kind [])"
  by (simp add: parse_datetime_def split: option.splits)

lemma parse_datetime_ok: "(snd (parse_datetime v kind []) = []) = (strptime v \<noteq> None)"
  by (simp add: parse_datetime_def split: option.splits)

lemma check_order_append: "check_order dep_dt arr_dt issues = issues @ check_order dep_dt arr_dt []"
  by (simp add: check_order_def split: option.splits)

lemma check_price_fst: "fst (check_price price_str issues) = py_float_str price_str"
  by (simp add: check_price_def split: option.splits)

lemma check_price_snd:
  "snd (check_price price_str issues) = issues @ snd (check_price price_str [])"
  by (simp add: check_price_def split: option.splits)

lemma check_price_ok:
  "(snd (check_price price_str []) = []) =
     (\<exists>p. py_float_str price_str = Some p \<and> \<not> flt_lt p (Finite 0) \<and> \<not> flt_eq p (Finite 0))"
  by (auto simp add: check_price_def split: option.splits)

text \<open>Each block adds its own issues, whatever the others found.\<close>

lemma collect_issues_snd:
  "snd (collect_issues [fid, org, dst, dep_str, arr_str, price_str]) =
     check_flight_id fid [] @ check_airport org ''origin'' [] @
     check_airport dst ''destination'' [] @
     snd (parse_datetime dep_str ''departure'' []) @
     snd (parse_datetime arr_str ''arrival'' []) @
     check_order (strptime dep_str) (strptime arr_str) [] @
     snd (check_price price_str [])"
proof -
  obtain d e1 where d: "parse_datetime dep_str ''departure'' [] = (d, e1)"
    by (cases "parse_datetime dep_str ''departure'' []") auto
  obtain a e2 where a: "parse_datetime arr_str ''arrival'' e1 = (a, e2)"
    by (cases "parse_datetime arr_str ''arrival'' e1") auto
  have d': "d = strptime dep_str" "e1 = snd (parse_datetime dep_str ''departure'' [])"
    using d parse_datetime_fst [of dep_str "''departure''" "[]"] by simp_all
  have a': "a = strptime arr_str" "e2 = e1 @ snd (parse_datetime arr_str ''arrival'' [])"
    using a parse_datetime_fst [of arr_str "''arrival''" e1]
      parse_datetime_snd [of arr_str "''arrival''" e1] by simp_all
  define i1 where "i1 = check_flight_id fid []"
  define i2 where "i2 = check_airport org ''origin'' []"
  define i3 where "i3 = check_airport dst ''destination'' []"
  define i5 where "i5 = check_order d a []"
  have s1: "check_airport org ''origin'' i1 = i1 @ i2"
    unfolding i2_def by (rule check_airport_append)
  have s2: "check_airport dst ''destination'' (i1 @ i2) = (i1 @ i2) @ i3"
    unfolding i3_def by (rule check_airport_append)
  have s3: "check_order d a (((i1 @ i2) @ i3) @ e2) = (((i1 @ i2) @ i3) @ e2) @ i5"
    unfolding i5_def by (rule check_order_append)
  have s4: "snd (check_price price_str ((((i1 @ i2) @ i3) @ e2) @ i5)) =
      ((((i1 @ i2) @ i3) @ e2) @ i5) @ snd (check_price price_str [])"
    by (rule check_price_snd)
  have "snd (collect_issues [fid, org, dst, dep_str, arr_str, price_str]) =
     snd (check_price price_str
       (check_order d a
          (check_airport dst ''destination'' (check_airport org ''origin'' i1) @ e2)))"
    by (simp add: collect_issues_def d a i1_def)
  also have "\<dots> = ((((i1 @ i2) @ i3) @ e2) @ i5) @ snd (check_price price_str [])"
    by (simp only: s1 s2 s3 s4)
  finally show ?thesis
    by (simp add: d' a' i1_def i2_def i3_def i5_def)
qed

lemma collect_issues_fst:
  "fst (collect_issues [fid, org, dst, dep_str, arr_str, price_str]) = py_float_str price_str"
  by (simp add: collect_issues_def check_price_fst split: prod.splits)

lemma check_order_ok:
  "(snd (parse_datetime dep_str ''departure'' []) = [] \<and>
    snd (parse_datetime arr_str ''arrival'' []) = [] \<and>
    check_order (strptime dep_str) (strptime arr_str) [] = []) =
   (\<exists>d a. strptime dep_str = Some d \<and> strptime arr_str = Some a \<and> d < a)"
  by (auto simp add: parse_datetime_ok check_order_def split: option.splits)

text \<open>The conditions under which a line of six parts has no issue.\<close>

lemma collect_issues_empty:
  "(snd (collect_issues [fid, org, dst, dep_str, arr_str, price_str]) = []) =
     ((2 \<le> length fid \<and> length fid \<le> 8 \<and> py_isalnum fid) \<and>
      org \<in> VALID_AIRPORTS \<and> dst \<in> VALID_AIRPORTS \<and>
      (\<exists>d a. strptime dep_str = Some d \<and> strptime arr_str = Some a \<and> d < a) \<and>
      (\<exists>p. py_float_str price_str = Some p \<and> \<not> flt_lt p (Finite 0) \<and> \<not> flt_eq p (Finite 0)))"
  unfolding collect_issues_snd append_is_Nil_conv check_flight_id_ok check_airport_ok
    check_price_ok
  using check_order_ok [of dep_str arr_str] by blast

lemma validate_six:
  assumes "map py_strip (py_split_comma line) = [fid, org, dst, dep_str, arr_str, price_str]"
  shows "validate_and_build_flight line n =
     (if snd (collect_issues [fid, org, dst, dep_str, arr_str, price_str]) \<noteq> []
      then (None, Some (line_prefix n line @
              py_join '', '' (snd (collect_issues [fid, org, dst, dep_str, arr_str, price_str]))))
      else (Some \<lparr>flight_id = fid, origin = org, destination = dst,
                  departure_datetime = dep_str, arrival_datetime = arr_str,
                  price = py_float_str price_str\<rparr>, None))"
proof -
  obtain pv iss where ci: "collect_issues [fid, org, dst, dep_str, arr_str, price_str] = (pv, iss)"
    by (cases "collect_issues [fid, org, dst, dep_str, arr_str, price_str]") auto
  have "pv = py_float_str price_str"
    using collect_issues_fst [of fid org dst dep_str arr_str price_str] ci by simp
  then show ?thesis
    by (simp add: validate_and_build_flight_def assms ci)
qed

text \<open>
  Claim C1. A line of exactly six fields yields a record if and only if the flight id has
  two to eight alphanumeric characters, origin and destination are on the whitelist, both
  timestamps parse with the arrival strictly after the departure, and the price is a float
  that the validator finds neither negative nor zero. Otherwise the line yields no record
  and a diagnostic; a record holds the six trimmed fields, the price as a float.
\<close>

theorem record_iff_all_fields_valid:
  assumes "map py_strip (py_split_comma line) = [fid, org, dst, dep_str, arr_str, price_str]"
  shows "((\<exists>f. fst (validate_and_build_flight line n) = Some f) =
            ((2 \<le> length fid \<and> length fid \<le> 8 \<and> py_isalnum fid) \<and>
             org \<in> VALID_AIRPORTS \<and> dst \<in> VALID_AIRPORTS \<and>
             (\<exists>d a. strptime dep_str = Some d \<and> strptime arr_str = Some a \<and> d < a) \<and>
             (\<exists>p. py_float_str price_str = Some p \<and>
                  \<not> flt_lt p (Finite 0) \<and> \<not> flt_eq p (Finite 0))))
       \<and> ((fst (validate_and_build_flight line n) = None) =
            (\<exists>msg. snd (validate_and_build_flight line n) = Some msg))
       \<and> (fst (validate_and_build_flight line n) = None \<or>
          fst (validate_and_build_flight line n) =
            Some \<lparr>flight_id = fid, origin = org, destination = dst,
                  departure_datetime = dep_str, arrival_datetime = arr_str,
                  price = py_float_str price_str\<rparr>)"
  unfolding validate_six [OF assms] collect_issues_empty [symmetric]
  by simp


lemma good_line_parts:
  "map py_strip (py_split_comma ''AB123, LHR,JFK,2024-03-10 08:00,2024-03-10 10:00,12.5'') =
     [''AB123'', ''LHR'', ''JFK'', ''2024-03-10 08:00'', ''2024-03-10 10:00'', ''12.5'']"
  by (simp add: py_strip_def py_isspace_char_def in_range_def ord_def)

lemma strptime_0800: "strptime ''2024-03-10 08:00'' = Some (2024, 3, 10, 8, 0)"
  by (simp add: strptime_defs)

lemma strptime_1000: "strptime ''2024-03-10 10:00'' = Some (2024, 3, 10, 10, 0)"
  by (simp add: strptime_defs)

lemma round_double_25_2: "round_double False 125 10 = Finite (25 / 2)"
  by (simp add: round_defs)

lemma float_12_5: "py_float_str ''12.5'' = Some (Finite (25 / 2))"
  by (simp add: float_defs round_double_25_2)

theorem record_iff_all_fields_valid_witness:
  "map py_strip (py_split_comma ''AB123, LHR,JFK,2024-03-10 08:00,2024-03-10 10:00,12.5'') =
     [''AB123'', ''LHR'', ''JFK'', ''2024-03-10 08:00'', ''2024-03-10 10:00'', ''12.5''] \<and>
   fst (validate_and_build_flight ''AB123, LHR,JFK,2024-03-10 08:00,2024-03-10 10:00,12.5'' 2) =
     Some \<lparr>flight_id = ''AB123'', origin = ''LHR'', destination = ''JFK'',
           departure_datetime = ''2024-03-10 08:00'', arrival_datetime = ''2024-03-10 10:00'',
           price = Some (Finite (25 / 2))\<rparr>"
proof -
  have ok: "py_isalnum ''AB123''" "''LHR'' \<in> VALID_AIRPORTS" "''JFK'' \<in> VALID_AIRPORTS"
    by (simp_all add: char_class_defs VALID_AIRPORTS_def)
  have lt: "((2024, 3, 10, 8, 0) :: datetime) < (2024, 3, 10, 10, 0)"
    by simp
  have "fst (validate_and_build_flight ''AB123, LHR,JFK,2024-03-10 08:00,2024-03-10 10:00,12.5'' 2) =
     Some \<lparr>flight_id = ''AB123'', origin = ''LHR'', destination = ''JFK'',
           departure_datetime = ''2024-03-10 08:00'', arrival_datetime = ''2024-03-10 10:00'',
           price = Some (Finite (25 / 2))\<rparr>"
    using record_iff_all_fields_valid [OF good_line_parts, of 2] ok lt
    by (auto simp add: strptime_0800 strptime_1000 float_12_5)
  then show ?thesis
    using good_line_parts by blast
qed

section \<open>Timestamps\<close>

lemma ord_digit_char: "d < 10 \<Longrightarrow> ord (digit_char d) = 48 + d"
  by (simp add: ord_def digit_char_def)

lemma digit_val_digit_char: "d < 10 \<Longrightarrow> digit_val (digit_char d) = d"
  by (simp add: digit_val_def ord_digit_char)

lemma in_range_digit_char: "d < 10 \<Longrightarrow> in_range lo hi (digit_char d) = (lo \<le> 48 + d \<and> 48 + d \<le> hi)"
  by (simp add: in_range_def ord_digit_char)

lemma rx_class_Cons: "rx_class P (c # r) = (if P c then [(digit_val c, r)] else [])"
  by (simp add: rx_class_def)

lemma rx_two_Cons2:
  "rx_two P Q (a # b # r) = (if P a \<and> Q b then [(10 * digit_val a + digit_val b, r)] else [])"
  by (simp add: rx_two_def rx_class_def)

lemma rx_two_pad2:
  "n < 100 \<Longrightarrow> rx_two P Q (pad2 n @ r) =
     (if P (digit_char (n div 10)) \<and> Q (digit_char (n mod 10)) then [(n, r)] else [])"
  by (simp add: pad2_def rx_two_Cons2 digit_val_digit_char)

lemma char_eq_ord: "(c = d) = (ord c = ord d)"
  by (simp add: ord_def)

lemma digit_char_eq: "d < 10 \<Longrightarrow> (digit_char d = CHR ''0'') = (d = 0)"
  "d < 10 \<Longrightarrow> (digit_char d = CHR ''1'') = (d = 1)"
  "d < 10 \<Longrightarrow> (digit_char d = CHR ''2'') = (d = 2)"
  "d < 10 \<Longrightarrow> (digit_char d = CHR ''3'') = (d = 3)"
  by (simp_all add: char_eq_ord [of "digit_char d"] ord_digit_char) (simp_all add: ord_def)

lemma decimal_digit_char: "d < 10 \<Longrightarrow> py_isdecimal_char (digit_char d)"
  by (simp add: py_isdecimal_char_def in_range_digit_char)

lemma not_space_digit_char: "d < 10 \<Longrightarrow> \<not> py_isspace_char (digit_char d)"
  by (simp add: py_isspace_char_def in_range_digit_char ord_digit_char)

lemma rx_Y_pad4:
  assumes "y \<le> 9999"
  shows "rx_Y (pad4 y @ r) = [(y, r)]"
proof -
  have a: "y div 100 < 100" and b: "y mod 100 < 100"
    using assms by simp_all
  have c: "y div 100 div 10 < 10" "y div 100 mod 10 < 10" "y mod 100 div 10 < 10" "y mod 100 mod 10 < 10"
    using assms by simp_all
  show ?thesis
    using a b c by (simp add: rx_Y_def pad4_def rx_two_pad2 decimal_digit_char)
qed

lemma rx_m_pad2:
  assumes "1 \<le> m" "m \<le> 12"
  shows "\<exists>zs. rx_m (pad2 m @ r) = (m, r) # zs"
proof -
  have a: "m < 100" "m div 10 < 10" "m mod 10 < 10"
    using assms by simp_all
  have "m div 10 = 0 \<and> 1 \<le> m mod 10 \<or> m div 10 = 1 \<and> m mod 10 \<le> 2"
    using assms by presburger
  then show ?thesis
    using a by (auto simp add: rx_m_def rx_two_pad2 in_range_digit_char digit_char_eq)
qed

lemma rx_d_pad2:
  assumes "1 \<le> d" "d \<le> 31"
  shows "\<exists>zs. rx_d (pad2 d @ r) = (d, r) # zs"
proof -
  have a: "d < 100" "d div 10 < 10" "d mod 10 < 10"
    using assms by simp_all
  have "d div 10 = 0 \<and> 1 \<le> d mod 10 \<or> d div 10 = 1 \<or> d div 10 = 2 \<or> d div 10 = 3 \<and> d mod 10 \<le> 1"
    using assms by presburger
  then show ?thesis
    using a by (auto simp add: rx_d_def rx_two_pad2 in_range_digit_char digit_char_eq decimal_digit_char)
qed

lemma rx_H_pad2:
  assumes "h < 24"
  shows "\<exists>zs. rx_H (pad2 h @ r) = (h, r) # zs"
proof -
  have a: "h < 100" "h div 10 < 10" "h mod 10 < 10"
    using assms by simp_all
  have "h div 10 \<le> 1 \<or> h div 10 = 2 \<and> h mod 10 \<le> 3"
    using assms by presburger
  then show ?thesis
    using a by (auto simp add: rx_H_def rx_two_pad2 in_range_digit_char digit_char_eq decimal_digit_char)
qed

lemma rx_M_pad2:
  assumes "mi < 60"
  shows "\<exists>zs. rx_M (pad2 mi @ r) = (mi, r) # zs"
proof -
  have a: "mi < 100" "mi div 10 < 10" "mi mod 10 < 10" "mi div 10 \<le> 5"
    using assms by simp_all
  then show ?thesis
    by (simp add: rx_M_def rx_two_pad2 in_range_digit_char decimal_digit_char)
qed

lemma rx_char_Cons: "rx_char x (c # r) = (if c = x then [(digit_val c, r)] else [])"
  by (simp add: rx_char_def rx_class_def)

lemma space_is_space: "py_isspace_char CHR '' ''"
  by (simp add: py_isspace_char_def in_range_def ord_def)

lemma rx_spaces_pad2: "h < 24 \<Longrightarrow> rx_spaces (pad2 h @ r) = []"
  by (simp add: pad2_def not_space_digit_char)

lemma date_regex_format:
  assumes "valid_datetime (y, m, d, h, mi)"
  shows "\<exists>zs. date_regex (format_timestamp (y, m, d, h, mi)) = (((y, m, d, h, mi), []) # zs)"
proof -
  have v: "y \<le> 9999" "1 \<le> m" "m \<le> 12" "1 \<le> d" "d \<le> 31" "h < 24" "mi < 60"
    using assms by (auto simp add: valid_datetime_def days_in_month_def split: if_splits)
  obtain z1 where m: "\<And>r. rx_m (pad2 m @ r) = (m, r) # z1 r"
    using rx_m_pad2 [OF v(2) v(3)] by metis
  obtain z2 where d: "\<And>r. rx_d (pad2 d @ r) = (d, r) # z2 r"
    using rx_d_pad2 [OF v(4) v(5)] by metis
  obtain z3 where h: "\<And>r. rx_H (pad2 h @ r) = (h, r) # z3 r"
    using rx_H_pad2 [OF v(6)] by metis
  obtain z4 where mi: "rx_M (pad2 mi @ []) = (mi, []) # z4"
    using rx_M_pad2 [OF v(7)] by metis
  show ?thesis
    using mi by (simp add: date_regex_def format_timestamp_def rx_Y_pad4 [OF v(1)] rx_char_Cons m d h
          rx_spaces_pad2 [OF v(6)] space_is_space)
qed

lemma strptime_format:
  "valid_datetime dt \<Longrightarrow> strptime (format_timestamp dt) = Some dt"
proof -
  assume v: "valid_datetime dt"
  obtain y m d h mi where dt: "dt = (y, m, d, h, mi)"
    by (cases dt) auto
  obtain zs where "date_regex (format_timestamp dt) = ((dt, []) # zs)"
    using date_regex_format v dt by blast
  then show ?thesis
    using v by (simp add: strptime_def)
qed


lemma strptime_unpadded_month: "strptime ''2024-3-10 08:00'' = Some (2024, 3, 10, 8, 0)"
  by (simp add: strptime_defs)

lemma strptime_unpadded_hour: "strptime ''2024-03-10 8:00'' = Some (2024, 3, 10, 8, 0)"
  by (simp add: strptime_defs)

lemma strptime_valid: "strptime s = Some dt \<Longrightarrow> valid_datetime dt"
  by (auto simp add: strptime_def split: list.splits if_splits)

text \<open>
  Claim C2, as the program has it. Every zero-padded text \<^verbatim>\<open>YYYY-MM-DD HH:MM\<close> of a
  valid date and time parses to that date and time, whatever parses is a valid date and
  time, and a text that does not parse gets the issue \<^verbatim>\<open>invalid <kind> datetime\<close>. Zero
  padding is not required: \<^verbatim>\<open>2024-03-10 08:00\<close>, \<^verbatim>\<open>2024-3-10 08:00\<close> and
  \<^verbatim>\<open>2024-03-10 8:00\<close> all parse, to the same timestamp.
\<close>

theorem timestamp_padding_optional:
  "(valid_datetime dt \<longrightarrow>
      parse_datetime (format_timestamp dt) kind errors = (Some dt, errors))
   \<and> (\<forall>t. strptime s = Some t \<longrightarrow>
        valid_datetime t \<and> parse_datetime s kind errors = (Some t, errors))
   \<and> (strptime s = None \<longrightarrow>
        parse_datetime s kind errors = (None, errors @ [''invalid '' @ kind @ '' datetime'']))
   \<and> parse_datetime ''2024-03-10 08:00'' kind errors = (Some (2024, 3, 10, 8, 0), errors)
   \<and> parse_datetime ''2024-3-10 08:00'' kind errors = (Some (2024, 3, 10, 8, 0), errors)
   \<and> parse_datetime ''2024-03-10 8:00'' kind errors = (Some (2024, 3, 10, 8, 0), errors)"
  by (simp add: parse_datetime_def strptime_format strptime_valid strptime_0800
      strptime_unpadded_month strptime_unpadded_hour)

theorem timestamp_padding_optional_witness:
  "valid_datetime (2024, 3, 10, 8, 0) \<and>
   format_timestamp (2024, 3, 10, 8, 0) = ''2024-03-10 08:00'' \<and>
   parse_datetime (format_timestamp (2024, 3, 10, 8, 0)) ''departure'' [] =
     (Some (2024, 3, 10, 8, 0), []) \<and>
   strptime ''2024-13-10 08:00'' = None \<and>
   parse_datetime ''2024-13-10 08:00'' ''departure'' [] = (None, [''invalid departure datetime''])"
proof -
  have v: "valid_datetime (2024, 3, 10, 8, 0)"
    by (simp add: valid_datetime_def days_in_month_def)
  have f: "format_timestamp (2024, 3, 10, 8, 0) = ''2024-03-10 08:00''"
    by (simp add: format_timestamp_def pad4_def pad2_def digit_char_simps)
  have n: "strptime ''2024-13-10 08:00'' = None"
    by (simp add: strptime_defs)
  show ?thesis
    using timestamp_padding_optional [of "(2024, 3, 10, 8, 0)" "''departure''" "[]" "''2024-13-10 08:00''"]
      v f n by simp
qed

text \<open>
  The claim C2 as it was stated asks that a timestamp without zero padding be rejected
  with an issue. Both examples of the claim are accepted without one.
\<close>

theorem unpadded_timestamps_accepted:
  "parse_datetime ''2024-3-10 08:00'' ''departure'' [] = (Some (2024, 3, 10, 8, 0), []) \<and>
   parse_datetime ''2024-03-10 8:00'' ''arrival'' [] = (Some (2024, 3, 10, 8, 0), [])"
  by (simp add: parse_datetime_def strptime_unpadded_month strptime_unpadded_hour)

section \<open>Prices\<close>

lemma float_nan: "py_float_str ''nan'' = Some NaN"
  by (simp add: float_defs)

lemma nan_line_parts:
  "map py_strip (py_split_comma ''AB123,LHR,JFK,2024-03-10 08:00,2024-03-10 10:00,nan'') =
     [''AB123'', ''LHR'', ''JFK'', ''2024-03-10 08:00'', ''2024-03-10 10:00'', ''nan'']"
  by (simp add: py_strip_def py_isspace_char_def in_range_def ord_def)

text \<open>
  Claim C3 asks that every record have a strictly positive price. The price text
  \<^verbatim>\<open>nan\<close> converts to the float NaN, which is neither below zero nor equal to zero, so
  the validator raises no issue and builds a record whose price is NaN, a value that is
  not above zero.
\<close>

theorem nan_price_accepted:
  "validate_and_build_flight ''AB123,LHR,JFK,2024-03-10 08:00,2024-03-10 10:00,nan'' 2 =
     (Some \<lparr>flight_id = ''AB123'', origin = ''LHR'', destination = ''JFK'',
            departure_datetime = ''2024-03-10 08:00'', arrival_datetime = ''2024-03-10 10:00'',
            price = Some NaN\<rparr>, None)
   \<and> \<not> flt_gt NaN (Finite 0)"
proof -
  have ok: "py_isalnum ''AB123''" "''LHR'' \<in> VALID_AIRPORTS" "''JFK'' \<in> VALID_AIRPORTS"
    by (simp_all add: char_class_defs VALID_AIRPORTS_def)
  have lt: "((2024, 3, 10, 8, 0) :: datetime) < (2024, 3, 10, 10, 0)"
    by simp
  have "snd (collect_issues [''AB123'', ''LHR'', ''JFK'', ''2024-03-10 08:00'', ''2024-03-10 10:00'', ''nan'']) = []"
    unfolding collect_issues_empty using ok lt
    by (simp add: strptime_0800 strptime_1000 float_nan)
  then show ?thesis
    by (simp add: validate_six [OF nan_line_parts] float_nan flt_gt_def)
qed

text \<open>Apart from NaN, the price of a record is a float above zero.\<close>

lemma six_parts:
  "length (xs :: 'a list) = 6 \<Longrightarrow> \<exists>a b c d e f. xs = [a, b, c, d, e, f]"
  by (auto simp add: numeral_eq_Suc length_Suc_conv)

lemma not_neg_not_zero: "\<not> flt_lt p (Finite 0) \<Longrightarrow> \<not> flt_eq p (Finite 0) \<Longrightarrow> flt_gt p (Finite 0) \<or> p = NaN"
  by (cases p) (auto simp add: flt_gt_def)

lemma accepted_flight:
  assumes "validate_and_build_flight line n = (Some f, None)"
  shows "\<exists>d a p. strptime (departure_datetime f) = Some d \<and> strptime (arrival_datetime f) = Some a \<and>
           d < a \<and> price f = Some p \<and> (flt_gt p (Finite 0) \<or> p = NaN)"
proof -
  have "length (map py_strip (py_split_comma line)) = 6"
    using assms by (auto simp add: validate_and_build_flight_def Let_def split: if_splits)
  then have "\<exists>a b c d e f. map py_strip (py_split_comma line) = [a, b, c, d, e, f]"
    by (rule six_parts)
  then obtain fid org dst dep_str arr_str price_str
    where parts: "map py_strip (py_split_comma line) = [fid, org, dst, dep_str, arr_str, price_str]"
    by (elim exE)
  have e: "snd (collect_issues [fid, org, dst, dep_str, arr_str, price_str]) = []"
    and f: "f = \<lparr>flight_id = fid, origin = org, destination = dst,
                  departure_datetime = dep_str, arrival_datetime = arr_str,
                  price = py_float_str price_str\<rparr>"
    using assms unfolding validate_six [OF parts] by (auto split: if_splits)
  show ?thesis
    using e [unfolded collect_issues_empty] not_neg_not_zero by (auto simp add: f)
qed

text \<open>So a record whose price is not NaN is a well-formed flight for the matcher.\<close>

lemma accepted_flight_wf:
  assumes "validate_and_build_flight line n = (Some f, None)" and "price f \<noteq> Some NaN"
  shows "wf_flight f"
  using accepted_flight [OF assms(1)] assms(2) by (auto simp add: wf_flight_def)

section \<open>Several issues on one line\<close>

lemma sublist_join: "m \<in> set xs \<Longrightarrow> sublist m (py_join sep xs)"
proof (induction sep xs rule: py_join.induct)
  case (1 sep)
  then show ?case by simp
next
  case (2 sep x)
  then show ?case by simp
next
  case (3 sep x y ys)
  show ?case
  proof (cases "m = x")
    case True
    then show ?thesis by simp
  next
    case False
    then have "sublist m (py_join sep (y # ys))"
      using 3 by simp
    then obtain ps ss where "py_join sep (y # ys) = ps @ m @ ss"
      by (auto simp add: sublist_def)
    then have "py_join sep (x # y # ys) = (x @ sep @ ps) @ m @ ss"
      by simp
    then show ?thesis
      unfolding sublist_def by blast
  qed
qed

lemma flight_id_issue:
  "check_flight_id fid [] =
     (if length fid > 8 then [''flight_id too long (more than 8 characters)'']
      else if length fid < 2 then [''flight_id too short (less than 2 characters)'']
      else if \<not> py_isalnum fid then [''invalid flight_id'']
      else [])"
  by (simp add: check_flight_id_def)

lemma datetime_issue:
  "snd (parse_datetime v kind []) =
     (if strptime v = None then [''invalid '' @ kind @ '' datetime''] else [])"
  by (simp add: parse_datetime_def split: option.splits)

lemma price_issue:
  "snd (check_price price_str []) =
     (case py_float_str price_str of
        None \<Rightarrow> [''invalid price value'']
      | Some p \<Rightarrow> if flt_lt p (Finite 0) then [''negative price value'']
                  else if flt_eq p (Finite 0) then [''non-positive price value'']
                  else [])"
  by (simp add: check_price_def split: option.splits)

text \<open>
  Claim C8. On a line of six fields the validator checks every field on its own and
  keeps every issue: whenever any issue is found the result is the diagnostic that joins
  them all, each failing field has its issue in the list, and the text of every issue of
  the list occurs in the diagnostic.
\<close>

theorem all_issues_reported:
  assumes "map py_strip (py_split_comma line) = [fid, org, dst, dep_str, arr_str, price_str]"
      and "issues = snd (collect_issues [fid, org, dst, dep_str, arr_str, price_str])"
  shows "(issues \<noteq> [] \<longrightarrow>
            validate_and_build_flight line n =
              (None, Some (line_prefix n line @ py_join '', '' issues)))
       \<and> issues =
            check_flight_id fid [] @ check_airport org ''origin'' [] @
            check_airport dst ''destination'' [] @
            snd (parse_datetime dep_str ''departure'' []) @
            snd (parse_datetime arr_str ''arrival'' []) @
            check_order (strptime dep_str) (strptime arr_str) [] @
            snd (check_price price_str [])
       \<and> (\<forall>m \<in> set issues. sublist m (line_prefix n line @ py_join '', '' issues))
       \<and> (length fid > 8 \<longrightarrow> ''flight_id too long (more than 8 characters)'' \<in> set issues)
       \<and> (length fid < 2 \<longrightarrow> ''flight_id too short (less than 2 characters)'' \<in> set issues)
       \<and> (2 \<le> length fid \<and> length fid \<le> 8 \<and> \<not> py_isalnum fid \<longrightarrow>
            ''invalid flight_id'' \<in> set issues)
       \<and> (org \<notin> VALID_AIRPORTS \<longrightarrow> ''invalid origin code'' \<in> set issues)
       \<and> (dst \<notin> VALID_AIRPORTS \<longrightarrow> ''invalid destination code'' \<in> set issues)
       \<and> (strptime dep_str = None \<longrightarrow> ''invalid departure datetime'' \<in> set issues)
       \<and> (strptime arr_str = None \<longrightarrow> ''invalid arrival datetime'' \<in> set issues)
       \<and> (py_float_str price_str = None \<longrightarrow> ''invalid price value'' \<in> set issues)
       \<and> (\<forall>p. py_float_str price_str = Some p \<and> flt_lt p (Finite 0) \<longrightarrow>
            ''negative price value'' \<in> set issues)
       \<and> (\<forall>p. py_float_str price_str = Some p \<and> \<not> flt_lt p (Finite 0) \<and> flt_eq p (Finite 0) \<longrightarrow>
            ''non-positive price value'' \<in> set issues)"
proof -
  have a: "issues \<noteq> [] \<longrightarrow>
            validate_and_build_flight line n =
              (None, Some (line_prefix n line @ py_join '', '' issues))"
    by (simp add: validate_six [OF assms(1)] assms(2))
  have b: "issues =
            check_flight_id fid [] @ check_airport org ''origin'' [] @
            check_airport dst ''destination'' [] @
            snd (parse_datetime dep_str ''departure'' []) @
            snd (parse_datetime arr_str ''arrival'' []) @
            check_order (strptime dep_str) (strptime arr_str) [] @
            snd (check_price price_str [])"
    unfolding assms(2) by (rule collect_issues_snd)
  have c: "\<forall>m \<in> set issues. sublist m (line_prefix n line @ py_join '', '' issues)"
  proof
    fix m assume "m \<in> set issues"
    then obtain ps ss where "py_join '', '' issues = ps @ m @ ss"
      using sublist_join [of m issues "'', ''"] by (auto simp add: sublist_def)
    then have "line_prefix n line @ py_join '', '' issues = (line_prefix n line @ ps) @ m @ ss"
      by simp
    then show "sublist m (line_prefix n line @ py_join '', '' issues)"
      unfolding sublist_def by blast
  qed
  have d: "length fid > 8 \<longrightarrow> ''flight_id too long (more than 8 characters)'' \<in> set issues"
    "length fid < 2 \<longrightarrow> ''flight_id too short (less than 2 characters)'' \<in> set issues"
    "2 \<le> length fid \<and> length fid \<le> 8 \<and> \<not> py_isalnum fid \<longrightarrow> ''invalid flight_id'' \<in> set issues"
    unfolding b by (simp_all add: flight_id_issue)
  have e: "org \<notin> VALID_AIRPORTS \<longrightarrow> ''invalid origin code'' \<in> set issues"
    "dst \<notin> VALID_AIRPORTS \<longrightarrow> ''invalid destination code'' \<in> set issues"
    unfolding b by (simp_all add: check_airport_cases)
  have f: "strptime dep_str = None \<longrightarrow> ''invalid departure datetime'' \<in> set issues"
    "strptime arr_str = None \<longrightarrow> ''invalid arrival datetime'' \<in> set issues"
    unfolding b by (simp_all add: datetime_issue)
  have g: "py_float_str price_str = None \<longrightarrow> ''invalid price value'' \<in> set issues"
    "\<forall>p. py_float_str price_str = Some p \<and> flt_lt p (Finite 0) \<longrightarrow>
            ''negative price value'' \<in> set issues"
    "\<forall>p. py_float_str price_str = Some p \<and> \<not> flt_lt p (Finite 0) \<and> flt_eq p (Finite 0) \<longrightarrow>
            ''non-positive price value'' \<in> set issues"
    unfolding b by (simp_all add: price_issue)
  show ?thesis
    using a b c d e f g by blast
qed

lemma bad_line_parts:
  "map py_strip (py_split_comma ''A,lhr,JFK,2024-03-10 08:00,2024-03-10 10:00,12.5'') =
     [''A'', ''lhr'', ''JFK'', ''2024-03-10 08:00'', ''2024-03-10 10:00'', ''12.5'']"
  by (simp add: py_strip_def py_isspace_char_def in_range_def ord_def)

theorem all_issues_reported_witness:
  "map py_strip (py_split_comma ''A,lhr,JFK,2024-03-10 08:00,2024-03-10 10:00,12.5'') =
     [''A'', ''lhr'', ''JFK'', ''2024-03-10 08:00'', ''2024-03-10 10:00'', ''12.5''] \<and>
   validate_and_build_flight ''A,lhr,JFK,2024-03-10 08:00,2024-03-10 10:00,12.5'' 3 =
     (None, Some (line_prefix 3 ''A,lhr,JFK,2024-03-10 08:00,2024-03-10 10:00,12.5'' @
        ''flight_id too short (less than 2 characters), invalid origin code''))"
proof -
  have w: "''lhr'' \<notin> VALID_AIRPORTS" "''JFK'' \<in> VALID_AIRPORTS"
    by (simp_all add: VALID_AIRPORTS_def)
  have lt: "((2024, 3, 10, 8, 0) :: datetime) < (2024, 3, 10, 10, 0)"
    by simp
  have z: "\<not> flt_lt (Finite (25 / 2)) (Finite 0)" "\<not> flt_eq (Finite (25 / 2)) (Finite 0)"
    by simp_all
  have "validate_and_build_flight ''A,lhr,JFK,2024-03-10 08:00,2024-03-10 10:00,12.5'' 3 =
     (None, Some (line_prefix 3 ''A,lhr,JFK,2024-03-10 08:00,2024-03-10 10:00,12.5'' @
        ''flight_id too short (less than 2 characters), invalid origin code''))"
    using all_issues_reported [OF bad_line_parts refl, of 3] w lt z
    by (simp add: flight_id_issue check_airport_cases datetime_issue price_issue check_order_def
        strptime_0800 strptime_1000 float_12_5)
  then show ?thesis
    using bad_line_parts by blast
qed

section \<open>The ingestion pass: what each kind of line produces\<close>

lemma line_prefix_not_empty: "line_prefix n line \<noteq> []"
  by (simp add: line_prefix_def)

text \<open>The validator returns a record and no message, or no record and a message.\<close>

lemma validate_shape:
  "(\<exists>f. validate_and_build_flight line n = (Some f, None)) \<or>
   (\<exists>e. e \<noteq> [] \<and> validate_and_build_flight line n = (None, Some e))"
  by (simp add: validate_and_build_flight_def Let_def line_prefix_not_empty split: prod.splits)

lemma comment_not_blank: "is_comment raw_line \<Longrightarrow> \<not> is_blank raw_line"
  by (auto simp add: is_comment_def is_blank_def py_startswith_def)

lemma comment_not_header: "is_comment raw_line \<Longrightarrow> \<not> is_header n raw_line"
proof
  assume c: "is_comment raw_line" and h: "is_header n raw_line"
  from c obtain r where s: "stripped_of raw_line = CHR ''#'' # r"
    by (cases "stripped_of raw_line") (auto simp add: is_comment_def py_startswith_def)
  have "py_lower_char CHR ''#'' = CHR ''#''"
    by (simp add: py_lower_char_def py_isupper_char_def in_range_def ord_def)
  then show False
    using h by (simp add: is_header_def s py_startswith_def py_lower_def HEADER_def)
qed

lemma parse_line_blank: "is_blank raw_line \<Longrightarrow> parse_line n raw_line st = st"
  by (cases st) (simp add: parse_line_def is_blank_def stripped_of_def)

lemma parse_line_comment:
  assumes "is_comment raw_line"
  shows "parse_line n raw_line (valid_flights, error_lines) =
     (valid_flights,
      error_lines @ [''Line '' @ py_str_int n @ '': '' @ stripped_of raw_line @ '' '' @ arrow @
                     '' comment line, ignored for data parsing''])"
  using assms comment_not_blank [OF assms] comment_not_header [OF assms, of n]
  by (simp add: parse_line_def is_blank_def is_header_def is_comment_def stripped_of_def Let_def)

lemma parse_line_data:
  assumes "is_data n raw_line"
  shows "parse_line n raw_line (valid_flights, error_lines) =
     (case validate_and_build_flight (py_rstrip_nl raw_line) n of
        (Some f, err) \<Rightarrow> (valid_flights @ [f], error_lines)
      | (None, Some e) \<Rightarrow> (valid_flights, error_lines @ [e])
      | (None, None) \<Rightarrow> (valid_flights, error_lines))"
  using assms validate_shape [of "py_rstrip_nl raw_line" n]
  by (auto simp add: parse_line_def is_data_def is_blank_def is_header_def is_comment_def
      stripped_of_def Let_def)

lemma parse_lines_append:
  "parse_lines n (xs @ ys) st = parse_lines (n + int (length xs)) ys (parse_lines n xs st)"
  by (induction xs arbitrary: n st) (simp_all add: add.assoc add.commute)

text \<open>The body of the loop appends what the line is expected to contribute.\<close>

lemma parse_line_expected:
  "parse_line n raw_line (vf, el) =
     (vf @ expected_records n raw_line, el @ expected_diagnostics n raw_line)"
proof (cases "is_blank raw_line")
  case True
  then show ?thesis
    by (simp add: parse_line_blank expected_records_def expected_diagnostics_def is_data_def)
next
  case nb: False
  show ?thesis
  proof (cases "is_header n raw_line")
    case True
    then have "parse_line n raw_line (vf, el) = (vf, el)"
      using nb by (simp add: parse_line_def is_blank_def is_header_def stripped_of_def Let_def)
    then show ?thesis
      using nb True by (simp add: expected_records_def expected_diagnostics_def is_data_def)
  next
    case nh: False
    show ?thesis
    proof (cases "is_comment raw_line")
      case True
      then show ?thesis
        using nb nh
        by (simp add: parse_line_comment expected_records_def expected_diagnostics_def is_data_def)
    next
      case False
      then have d: "is_data n raw_line"
        using nb nh by (simp add: is_data_def)
      show ?thesis
        using validate_shape [of "py_rstrip_nl raw_line" n] nb nh False d
        by (auto simp add: parse_line_data [OF d] expected_records_def expected_diagnostics_def)
    qed
  qed
qed

lemma parse_lines_expected:
  "parse_lines n f (vf, el) =
     (vf @ concat (map (\<lambda>(i, raw). expected_records i raw) (py_enumerate n f)),
      el @ concat (map (\<lambda>(i, raw). expected_diagnostics i raw) (py_enumerate n f)))"
  by (induction f arbitrary: n vf el) (simp_all add: parse_line_expected)

lemma expected_diagnostics_length:
  "length (expected_diagnostics n raw_line) =
     (if is_comment raw_line \<or>
         (is_data n raw_line \<and> fst (validate_and_build_flight (py_rstrip_nl raw_line) n) = None)
      then 1 else 0)"
  using validate_shape [of "py_rstrip_nl raw_line" n] comment_not_blank [of raw_line]
    comment_not_header [of raw_line n]
  by (auto simp add: expected_diagnostics_def is_data_def)

lemma expected_records_length:
  "length (expected_records n raw_line) =
     (if is_data n raw_line \<and> fst (validate_and_build_flight (py_rstrip_nl raw_line) n) \<noteq> None
      then 1 else 0)"
  by (auto simp add: expected_records_def)

lemma count_diagnostics:
  "length (concat (map (\<lambda>(i, raw). expected_diagnostics i raw) xs)) =
     length (filter (\<lambda>(i, raw). is_comment raw \<or>
        (is_data i raw \<and> fst (validate_and_build_flight (py_rstrip_nl raw) i) = None)) xs)"
proof (induction xs)
  case Nil
  then show ?case by simp
next
  case (Cons x xs)
  obtain i raw where x: "x = (i, raw)"
    by (cases x)
  have "length (concat (map (\<lambda>(i, raw). expected_diagnostics i raw) (x # xs))) =
      length (expected_diagnostics i raw) +
      length (concat (map (\<lambda>(i, raw). expected_diagnostics i raw) xs))"
    by (simp add: x)
  also have "\<dots> =
      (if is_comment raw \<or>
          (is_data i raw \<and> fst (validate_and_build_flight (py_rstrip_nl raw) i) = None)
       then 1 else 0) +
      length (filter (\<lambda>(i, raw). is_comment raw \<or>
        (is_data i raw \<and> fst (validate_and_build_flight (py_rstrip_nl raw) i) = None)) xs)"
    by (simp only: expected_diagnostics_length Cons.IH)
  also have "\<dots> = length (filter (\<lambda>(i, raw). is_comment raw \<or>
        (is_data i raw \<and> fst (validate_and_build_flight (py_rstrip_nl raw) i) = None)) (x # xs))"
    by (simp add: x)
  finally show ?case .
qed

lemma count_records:
  "length (concat (map (\<lambda>(i, raw). expected_records i raw) xs)) =
     length (filter (\<lambda>(i, raw). is_data i raw \<and>
        fst (validate_and_build_flight (py_rstrip_nl raw) i) \<noteq> None) xs)"
proof (induction xs)
  case Nil
  then show ?case by simp
next
  case (Cons x xs)
  obtain i raw where x: "x = (i, raw)"
    by (cases x)
  have "length (concat (map (\<lambda>(i, raw). expected_records i raw) (x # xs))) =
      length (expected_records i raw) +
      length (concat (map (\<lambda>(i, raw). expected_records i raw) xs))"
    by (simp add: x)
  also have "\<dots> =
      (if is_data i raw \<and> fst (validate_and_build_flight (py_rstrip_nl raw) i) \<noteq> None
       then 1 else 0) +
      length (filter (\<lambda>(i, raw). is_data i raw \<and>
        fst (validate_and_build_flight (py_rstrip_nl raw) i) \<noteq> None) xs)"
    by (simp only: expected_records_length Cons.IH)
  also have "\<dots> = length (filter (\<lambda>(i, raw). is_data i raw \<and>
        fst (validate_and_build_flight (py_rstrip_nl raw) i) \<noteq> None) (x # xs))"
    by (simp add: x)
  finally show ?case .
qed

text \<open>
  Claim C9. The output of a pass over a file is the two lists it was given, each followed
  by what the numbered lines contribute in order. So the pass adds exactly one diagnostic
  for each comment line and for each data line the validator rejects, and none for any
  other line; it adds exactly one record for each data line the validator accepts. A
  blank line contributes neither a record nor a diagnostic; a comment line contributes
  its one diagnostic and no record; a rejected data line contributes the validator's
  diagnostic and no record. The body of the loop does the same to the lists at hand, and
  the pass applies it to each line under its number.
\<close>

theorem ingestion_pass_output:
  "parse_csv_file f valid_flights error_lines =
     (valid_flights @ concat (map (\<lambda>(i, raw). expected_records i raw) (py_enumerate 1 f)),
      error_lines @ concat (map (\<lambda>(i, raw). expected_diagnostics i raw) (py_enumerate 1 f)))
   \<and> length (snd (parse_csv_file f valid_flights error_lines)) =
       length error_lines +
       length (filter (\<lambda>(i, raw). is_comment raw \<or>
          (is_data i raw \<and> fst (validate_and_build_flight (py_rstrip_nl raw) i) = None))
          (py_enumerate 1 f))
   \<and> length (fst (parse_csv_file f valid_flights error_lines)) =
       length valid_flights +
       length (filter (\<lambda>(i, raw). is_data i raw \<and>
          fst (validate_and_build_flight (py_rstrip_nl raw) i) \<noteq> None)
          (py_enumerate 1 f))
   \<and> (is_blank raw_line \<longrightarrow>
        expected_records n raw_line = [] \<and> expected_diagnostics n raw_line = [] \<and>
        parse_line n raw_line (vf, el) = (vf, el))
   \<and> (is_comment raw_line \<longrightarrow>
        expected_records n raw_line = [] \<and>
        expected_diagnostics n raw_line =
          [''Line '' @ py_str_int n @ '': '' @ stripped_of raw_line @ '' '' @ arrow @
           '' comment line, ignored for data parsing''] \<and>
        parse_line n raw_line (vf, el) =
          (vf, el @ [''Line '' @ py_str_int n @ '': '' @ stripped_of raw_line @ '' '' @ arrow @
                     '' comment line, ignored for data parsing'']))
   \<and> (is_data n raw_line \<and> fst (validate_and_build_flight (py_rstrip_nl raw_line) n) = None \<longrightarrow>
        (\<exists>e. validate_and_build_flight (py_rstrip_nl raw_line) n = (None, Some e) \<and>
             expected_records n raw_line = [] \<and> expected_diagnostics n raw_line = [e] \<and>
             parse_line n raw_line (vf, el) = (vf, el @ [e])))
   \<and> (\<forall>r. is_data n raw_line \<and> fst (validate_and_build_flight (py_rstrip_nl raw_line) n) = Some r \<longrightarrow>
        expected_records n raw_line = [r] \<and> expected_diagnostics n raw_line = [] \<and>
        parse_line n raw_line (vf, el) = (vf @ [r], el))
   \<and> parse_csv_file (pre @ raw_line # post) valid_flights error_lines =
       parse_lines (int (length pre) + 2) post
         (parse_line (int (length pre) + 1) raw_line (parse_csv_file pre valid_flights error_lines))"
proof -
  have a: "parse_csv_file f valid_flights error_lines =
     (valid_flights @ concat (map (\<lambda>(i, raw). expected_records i raw) (py_enumerate 1 f)),
      error_lines @ concat (map (\<lambda>(i, raw). expected_diagnostics i raw) (py_enumerate 1 f)))"
    by (simp add: parse_csv_file_def parse_lines_expected)
  have b: "length (snd (parse_csv_file f valid_flights error_lines)) =
       length error_lines +
       length (filter (\<lambda>(i, raw). is_comment raw \<or>
          (is_data i raw \<and> fst (validate_and_build_flight (py_rstrip_nl raw) i) = None))
          (py_enumerate 1 f))"
    unfolding a by (simp add: count_diagnostics)
  have c: "length (fst (parse_csv_file f valid_flights error_lines)) =
       length valid_flights +
       length (filter (\<lambda>(i, raw). is_data i raw \<and>
          fst (validate_and_build_flight (py_rstrip_nl raw) i) \<noteq> None)
          (py_enumerate 1 f))"
    unfolding a by (simp add: count_records)
  have d: "is_blank raw_line \<longrightarrow>
        expected_records n raw_line = [] \<and> expected_diagnostics n raw_line = [] \<and>
        parse_line n raw_line (vf, el) = (vf, el)"
    by (simp add: parse_line_blank expected_records_def expected_diagnostics_def is_data_def)
  have e: "is_comment raw_line \<longrightarrow>
        expected_records n raw_line = [] \<and>
        expected_diagnostics n raw_line =
          [''Line '' @ py_str_int n @ '': '' @ stripped_of raw_line @ '' '' @ arrow @
           '' comment line, ignored for data parsing''] \<and>
        parse_line n raw_line (vf, el) =
          (vf, el @ [''Line '' @ py_str_int n @ '': '' @ stripped_of raw_line @ '' '' @ arrow @
                     '' comment line, ignored for data parsing''])"
    using comment_not_blank [of raw_line] comment_not_header [of raw_line n]
    by (simp add: parse_line_comment expected_records_def expected_diagnostics_def is_data_def)
  have g: "is_data n raw_line \<and> fst (validate_and_build_flight (py_rstrip_nl raw_line) n) = None \<longrightarrow>
        (\<exists>e. validate_and_build_flight (py_rstrip_nl raw_line) n = (None, Some e) \<and>
             expected_records n raw_line = [] \<and> expected_diagnostics n raw_line = [e] \<and>
             parse_line n raw_line (vf, el) = (vf, el @ [e]))"
    using validate_shape [of "py_rstrip_nl raw_line" n]
    by (auto simp add: parse_line_data expected_records_def expected_diagnostics_def is_data_def)
  have h: "\<forall>r. is_data n raw_line \<and> fst (validate_and_build_flight (py_rstrip_nl raw_line) n) = Some r \<longrightarrow>
        expected_records n raw_line = [r] \<and> expected_diagnostics n raw_line = [] \<and>
        parse_line n raw_line (vf, el) = (vf @ [r], el)"
    using validate_shape [of "py_rstrip_nl raw_line" n]
    by (auto simp add: parse_line_data expected_records_def expected_diagnostics_def is_data_def)
  have i: "parse_csv_file (pre @ raw_line # post) valid_flights error_lines =
       parse_lines (int (length pre) + 2) post
         (parse_line (int (length pre) + 1) raw_line (parse_csv_file pre valid_flights error_lines))"
    by (simp add: parse_csv_file_def parse_lines_append add.commute)
  show ?thesis
    using a b c d e g h i by blast
qed

lemmas line_kind_defs =
  is_blank_def is_comment_def is_header_def is_data_def stripped_of_def py_strip_def
  py_rstrip_nl_def py_startswith_def py_isspace_char_def in_range_def ord_def

lemma short_id_line:
  "validate_and_build_flight ''A,LHR,JFK,2024-03-10 08:00,2024-03-10 10:00,12.5'' 5 =
     (None, Some (line_prefix 5 ''A,LHR,JFK,2024-03-10 08:00,2024-03-10 10:00,12.5'' @
        ''flight_id too short (less than 2 characters)''))"
proof -
  have p: "map py_strip (py_split_comma ''A,LHR,JFK,2024-03-10 08:00,2024-03-10 10:00,12.5'') =
     [''A'', ''LHR'', ''JFK'', ''2024-03-10 08:00'', ''2024-03-10 10:00'', ''12.5'']"
    by (simp add: py_strip_def py_isspace_char_def in_range_def ord_def)
  have w: "''LHR'' \<in> VALID_AIRPORTS" "''JFK'' \<in> VALID_AIRPORTS"
    by (simp_all add: VALID_AIRPORTS_def)
  have lt: "((2024, 3, 10, 8, 0) :: datetime) < (2024, 3, 10, 10, 0)"
    by simp
  have "snd (collect_issues [''A'', ''LHR'', ''JFK'', ''2024-03-10 08:00'', ''2024-03-10 10:00'', ''12.5'']) =
      [''flight_id too short (less than 2 characters)'']"
    unfolding collect_issues_snd using w lt
    by (simp add: check_flight_id_def check_airport_cases parse_datetime_def check_order_def
        check_price_def strptime_0800 strptime_1000 float_12_5)
  then show ?thesis
    by (simp add: validate_six [OF p])
qed

lemma good_line_result:
  "validate_and_build_flight ''AB123, LHR,JFK,2024-03-10 08:00,2024-03-10 10:00,12.5'' 2 =
     (Some \<lparr>flight_id = ''AB123'', origin = ''LHR'', destination = ''JFK'',
            departure_datetime = ''2024-03-10 08:00'', arrival_datetime = ''2024-03-10 10:00'',
            price = Some (Finite (25 / 2))\<rparr>, None)"
proof -
  have ok: "py_isalnum ''AB123''" "''LHR'' \<in> VALID_AIRPORTS" "''JFK'' \<in> VALID_AIRPORTS"
    by (simp_all add: char_class_defs VALID_AIRPORTS_def)
  have lt: "((2024, 3, 10, 8, 0) :: datetime) < (2024, 3, 10, 10, 0)"
    by simp
  have "snd (collect_issues [''AB123'', ''LHR'', ''JFK'', ''2024-03-10 08:00'', ''2024-03-10 10:00'', ''12.5'']) = []"
    unfolding collect_issues_empty using ok lt
    by (simp add: strptime_0800 strptime_1000 float_12_5)
  then show ?thesis
    by (simp add: validate_six [OF good_line_parts] float_12_5)
qed

text \<open>
  A file of five lines: the header, an accepted line, a blank line, a comment and a
  rejected line. The pass returns the one record and the two diagnostics.
\<close>

theorem ingestion_pass_output_witness:
  "is_blank (''   '' @ [CHR 0x0A]) \<and>
   is_comment (''# note'' @ [CHR 0x0A]) \<and>
   is_data 5 (''A,LHR,JFK,2024-03-10 08:00,2024-03-10 10:00,12.5'' @ [CHR 0x0A]) \<and>
   fst (validate_and_build_flight
          (py_rstrip_nl (''A,LHR,JFK,2024-03-10 08:00,2024-03-10 10:00,12.5'' @ [CHR 0x0A])) 5) = None \<and>
   parse_csv_file
     [HEADER @ [CHR 0x0A],
      ''AB123, LHR,JFK,2024-03-10 08:00,2024-03-10 10:00,12.5'' @ [CHR 0x0A],
      ''   '' @ [CHR 0x0A],
      ''# note'' @ [CHR 0x0A],
      ''A,LHR,JFK,2024-03-10 08:00,2024-03-10 10:00,12.5'' @ [CHR 0x0A]] [] [] =
     ([\<lparr>flight_id = ''AB123'', origin = ''LHR'', destination = ''JFK'',
        departure_datetime = ''2024-03-10 08:00'', arrival_datetime = ''2024-03-10 10:00'',
        price = Some (Finite (25 / 2))\<rparr>],
      [''Line 4: # note '' @ arrow @ '' comment line, ignored for data parsing'',
       line_prefix 5 ''A,LHR,JFK,2024-03-10 08:00,2024-03-10 10:00,12.5'' @
         ''flight_id too short (less than 2 characters)''])"
proof -
  let ?good = "''AB123, LHR,JFK,2024-03-10 08:00,2024-03-10 10:00,12.5''"
  let ?bad = "''A,LHR,JFK,2024-03-10 08:00,2024-03-10 10:00,12.5''"
  have k: "is_blank (''   '' @ [CHR 0x0A])" "is_comment (''# note'' @ [CHR 0x0A])"
    "is_data 5 (?bad @ [CHR 0x0A])" "is_data 2 (?good @ [CHR 0x0A])"
    by (simp_all add: line_kind_defs)
  have hd: "is_header 1 (HEADER @ [CHR 0x0A])" "\<not> is_blank (HEADER @ [CHR 0x0A])"
    by (simp_all add: line_kind_defs HEADER_def py_lower_def py_lower_char_def
        py_isupper_char_def)
  have s: "stripped_of (''# note'' @ [CHR 0x0A]) = ''# note''"
    "py_rstrip_nl (?bad @ [CHR 0x0A]) = ?bad" "py_rstrip_nl (?good @ [CHR 0x0A]) = ?good"
    by (simp_all add: line_kind_defs)
  have x1: "expected_records 1 (HEADER @ [CHR 0x0A]) = []"
    "expected_diagnostics 1 (HEADER @ [CHR 0x0A]) = []"
    using hd by (simp_all add: expected_records_def expected_diagnostics_def is_data_def)
  have x2: "expected_records 2 (?good @ [CHR 0x0A]) =
      [\<lparr>flight_id = ''AB123'', origin = ''LHR'', destination = ''JFK'',
        departure_datetime = ''2024-03-10 08:00'', arrival_datetime = ''2024-03-10 10:00'',
        price = Some (Finite (25 / 2))\<rparr>]"
    "expected_diagnostics 2 (?good @ [CHR 0x0A]) = []"
    using ingestion_pass_output [of "[]" "[]" "[]" "?good @ [CHR 0x0A]" 2 "[]" "[]" "[]" "[]"]
      k(4) s(3) good_line_result by simp_all
  have x3: "expected_records 3 (''   '' @ [CHR 0x0A]) = []"
    "expected_diagnostics 3 (''   '' @ [CHR 0x0A]) = []"
    using ingestion_pass_output [of "[]" "[]" "[]" "''   '' @ [CHR 0x0A]" 3 "[]" "[]" "[]" "[]"]
      k(1) by simp_all
  have x4: "expected_records 4 (''# note'' @ [CHR 0x0A]) = []"
    "expected_diagnostics 4 (''# note'' @ [CHR 0x0A]) =
       [''Line 4: # note '' @ arrow @ '' comment line, ignored for data parsing'']"
    using ingestion_pass_output [of "[]" "[]" "[]" "''# note'' @ [CHR 0x0A]" 4 "[]" "[]" "[]" "[]"]
      k(2) s(1) by (simp_all add: str_int_defs)
  have x5: "expected_records 5 (?bad @ [CHR 0x0A]) = []"
    "expected_diagnostics 5 (?bad @ [CHR 0x0A]) =
       [line_prefix 5 ?bad @ ''flight_id too short (less than 2 characters)'']"
    using ingestion_pass_output [of "[]" "[]" "[]" "?bad @ [CHR 0x0A]" 5 "[]" "[]" "[]" "[]"]
      k(3) s(2) short_id_line by simp_all
  have r: "fst (validate_and_build_flight (py_rstrip_nl (?bad @ [CHR 0x0A])) 5) = None"
    using s(2) short_id_line by simp
  have "parse_csv_file
     [HEADER @ [CHR 0x0A], ?good @ [CHR 0x0A], ''   '' @ [CHR 0x0A], ''# note'' @ [CHR 0x0A],
      ?bad @ [CHR 0x0A]] [] [] =
     ([\<lparr>flight_id = ''AB123'', origin = ''LHR'', destination = ''JFK'',
        departure_datetime = ''2024-03-10 08:00'', arrival_datetime = ''2024-03-10 10:00'',
        price = Some (Finite (25 / 2))\<rparr>],
      [''Line 4: # note '' @ arrow @ '' comment line, ignored for data parsing'',
       line_prefix 5 ?bad @ ''flight_id too short (less than 2 characters)''])"
    using x1 x2 x3 x4 x5
    unfolding ingestion_pass_output [of "[HEADER @ [CHR 0x0A], ?good @ [CHR 0x0A],
        ''   '' @ [CHR 0x0A], ''# note'' @ [CHR 0x0A], ?bad @ [CHR 0x0A]]" "[]" "[]" "[]" 0 "[]" "[]"
        "[]" "[]", THEN conjunct1]
    by simp
  then show ?thesis
    using k(1,2,3) r by blast
qed

section \<open>Malformed range bounds\<close>

lemma filter_flights_dep_error:
  "q ''departure_datetime'' = Some v \<Longrightarrow> strptime_json v = Inl e \<Longrightarrow>
   filter_flights flights q = Inl e"
  by (simp add: filter_flights_def filter_bound_def)

lemma filter_flights_arr_error:
  "wf_bound q ''departure_datetime'' \<Longrightarrow> q ''arrival_datetime'' = Some v \<Longrightarrow>
   strptime_json v = Inl e \<Longrightarrow> filter_flights flights q = Inl e"
  by (auto simp add: filter_flights_def filter_bound_def wf_bound_def split: option.splits sum.splits)

lemma strptime_json_error:
  "strptime_json v = Inl e \<longleftrightarrow>
     (case v of JStr s \<Rightarrow> strptime s = None \<and> e = ValueError | _ \<Rightarrow> e = TypeError)"
  by (cases v) (auto simp add: strptime_json_def split: option.splits)

lemma unrecognized_lookup:
  assumes "k \<notin> recognized_keys"
  shows "(q(k \<mapsto> v)) ''flight_id'' = q ''flight_id''"
    "(q(k \<mapsto> v)) ''origin'' = q ''origin''"
    "(q(k \<mapsto> v)) ''destination'' = q ''destination''"
    "(q(k \<mapsto> v)) ''departure_datetime'' = q ''departure_datetime''"
    "(q(k \<mapsto> v)) ''arrival_datetime'' = q ''arrival_datetime''"
    "(q(k \<mapsto> v)) ''price'' = q ''price''"
  using assms by (auto simp add: recognized_keys_def)

lemma flight_matches_unrecognized:
  assumes "k \<notin> recognized_keys"
  shows "flight_matches (q(k \<mapsto> v)) d a f = flight_matches q d a f"
  unfolding flight_matches_def exact_matches.simps unrecognized_lookup [OF assms]
  by (rule refl)

lemma filter_loop_unrecognized:
  assumes "k \<notin> recognized_keys"
  shows "filter_loop (q(k \<mapsto> v)) d a flights acc = filter_loop q d a flights acc"
  by (induction flights arbitrary: acc)
     (simp_all add: flight_matches_unrecognized [OF assms] split: sum.splits)

lemma filter_flights_unrecognized:
  assumes "k \<notin> recognized_keys"
  shows "filter_flights flights (q(k \<mapsto> v)) = filter_flights flights q"
  unfolding filter_flights_def filter_bound_def unrecognized_lookup [OF assms]
    filter_loop_unrecognized [OF assms]
  by (rule refl)

text \<open>
  Claim C10, as the program has it. When the value under \<^verbatim>\<open>departure_datetime\<close>, or
  under \<^verbatim>\<open>arrival_datetime\<close> with the departure bound absent or accepted, is not a
  text that \<^verbatim>\<open>strptime\<close> accepts for the date format (zero padding is optional
  there), the matcher raises: \<^verbatim>\<open>ValueError\<close> for a text, \<^verbatim>\<open>TypeError\<close> for any
  other value. It raises whatever the flights are, none of them having been looked at. A
  key that is not recognized is ignored.
\<close>

theorem malformed_bound_raises:
  "(q ''departure_datetime'' = Some v \<and> strptime_json v = Inl e \<longrightarrow>
      filter_flights flights q = Inl e \<and> filter_flights [] q = Inl e)
   \<and> (wf_bound q ''departure_datetime'' \<and> q ''arrival_datetime'' = Some v \<and>
      strptime_json v = Inl e \<longrightarrow>
      filter_flights flights q = Inl e \<and> filter_flights [] q = Inl e)
   \<and> (strptime_json v = Inl e \<longleftrightarrow>
        (case v of JStr s \<Rightarrow> strptime s = None \<and> e = ValueError | _ \<Rightarrow> e = TypeError))
   \<and> (k \<notin> recognized_keys \<longrightarrow> filter_flights flights (q(k \<mapsto> v)) = filter_flights flights q)"
  using filter_flights_dep_error [of q v e] filter_flights_arr_error [of q v e]
    strptime_json_error [of v e] filter_flights_unrecognized [of k flights q v]
  by blast

theorem malformed_bound_raises_witness:
  "(Map.empty(''departure_datetime'' \<mapsto> JStr ''tomorrow'')) ''departure_datetime'' =
     Some (JStr ''tomorrow'') \<and>
   strptime_json (JStr ''tomorrow'') = Inl ValueError \<and>
   filter_flights
     [\<lparr>flight_id = ''AB123'', origin = ''LHR'', destination = ''JFK'',
       departure_datetime = ''2024-03-10 08:00'', arrival_datetime = ''2024-03-10 10:00'',
       price = Some (Finite (25 / 2))\<rparr>]
     (Map.empty(''departure_datetime'' \<mapsto> JStr ''tomorrow'')) = Inl ValueError"
proof -
  have s: "strptime ''tomorrow'' = None"
    by (simp add: strptime_defs)
  then have e: "strptime_json (JStr ''tomorrow'') = Inl ValueError"
    by (simp add: strptime_json_def)
  show ?thesis
    using malformed_bound_raises [of "Map.empty(''departure_datetime'' \<mapsto> JStr ''tomorrow'')"
        "JStr ''tomorrow''" ValueError _ "''x''"] e
    by simp
qed

lemma strptime_unpadded_both: "strptime ''2024-3-10 8:00'' = Some (2024, 3, 10, 8, 0)"
  by (simp add: strptime_defs)

text \<open>
  The claim C10 as it was stated has the matcher raise on every bound that is not written
  \<^verbatim>\<open>YYYY-MM-DD HH:MM\<close>. A bound without zero padding is not written so, and the
  matcher returns its matches: here the flight that departs at the bound and the flight
  that arrives at it.
\<close>

theorem unpadded_bound_accepted:
  "filter_flights
     [\<lparr>flight_id = ''AB123'', origin = ''LHR'', destination = ''JFK'',
       departure_datetime = ''2024-03-10 08:00'', arrival_datetime = ''2024-03-10 10:00'',
       price = Some (Finite (25 / 2))\<rparr>]
     (Map.empty(''departure_datetime'' \<mapsto> JStr ''2024-3-10 8:00'')) =
   Inr [\<lparr>flight_id = ''AB123'', origin = ''LHR'', destination = ''JFK'',
       departure_datetime = ''2024-03-10 08:00'', arrival_datetime = ''2024-03-10 10:00'',
       price = Some (Finite (25 / 2))\<rparr>] \<and>
   filter_flights
     [\<lparr>flight_id = ''CD456'', origin = ''FRA'', destination = ''JFK'',
       departure_datetime = ''2024-03-10 08:00'', arrival_datetime = ''2024-03-10 08:00'',
       price = Some (Finite (25 / 2))\<rparr>]
     (Map.empty(''arrival_datetime'' \<mapsto> JStr ''2024-3-10 8:00'')) =
   Inr [\<lparr>flight_id = ''CD456'', origin = ''FRA'', destination = ''JFK'',
       departure_datetime = ''2024-03-10 08:00'', arrival_datetime = ''2024-03-10 08:00'',
       price = Some (Finite (25 / 2))\<rparr>]"
  by (simp add: filter_flights_def filter_bound_def flight_matches_def flight_get_def
      strptime_json_def strptime_unpadded_both strptime_0800)

section \<open>The query matcher on well-formed input\<close>

lemmas filter_eval_defs =
  filter_flights_def filter_bound_def flight_matches_def flight_get_def float_of_price_def
  py_float_def strptime_json_def flt_gt_def

lemma exact_matches_three:
  "exact_matches q f [''flight_id'', ''origin'', ''destination''] =
     (equals_field q ''flight_id'' (flight_id f) \<and>
      equals_field q ''origin'' (origin f) \<and>
      equals_field q ''destination'' (destination f))"
  by (auto simp add: flight_get_def equals_field_def split: option.splits)

lemma flt_not_gt: "x \<noteq> NaN \<Longrightarrow> y \<noteq> NaN \<Longrightarrow> (\<not> flt_gt x y) = flt_le x y"
  by (cases x; cases y) (auto simp add: flt_gt_def flt_le_def)

lemma wf_bound_cases:
  assumes "wf_bound q k"
  obtains "q k = None" "filter_bound q k = Inr None"
  | v dt where "q k = Some v" "strptime_json v = Inr dt" "filter_bound q k = Inr (Some dt)"
  using assms by (auto simp add: wf_bound_def filter_bound_def split: option.splits sum.splits)

lemma dep_check_satisfies:
  assumes "wf_bound q ''departure_datetime''" "strptime (departure_datetime f) \<noteq> None"
    and "filter_bound q ''departure_datetime'' = Inr d"
  shows "(case d of
            None \<Rightarrow> Inr True
          | Some dep_bound \<Rightarrow>
              (case strptime (departure_datetime f) of
                 None \<Rightarrow> Inl ValueError
               | Some flight_dep \<Rightarrow> Inr (\<not> flight_dep < dep_bound))) =
         (Inr (case q ''departure_datetime'' of
            None \<Rightarrow> True
          | Some v \<Rightarrow>
              (case strptime_json v of
                 Inl e \<Rightarrow> False
               | Inr bound \<Rightarrow>
                   (case strptime (departure_datetime f) of
                      None \<Rightarrow> False
                    | Some dep \<Rightarrow> bound \<le> dep))) :: error + bool)"
  using assms(1)
proof (cases rule: wf_bound_cases)
  case 1
  then show ?thesis using assms(3) by simp
next
  case (2 v dt)
  then show ?thesis using assms(2,3) by (auto simp add: not_less)
qed

lemma arr_check_satisfies:
  assumes "wf_bound q ''arrival_datetime''" "strptime (arrival_datetime f) \<noteq> None"
    and "filter_bound q ''arrival_datetime'' = Inr a"
  shows "(case a of
            None \<Rightarrow> Inr True
          | Some arr_bound \<Rightarrow>
              (case strptime (arrival_datetime f) of
                 None \<Rightarrow> Inl ValueError
               | Some flight_arr \<Rightarrow> Inr (\<not> flight_arr > arr_bound))) =
         (Inr (case q ''arrival_datetime'' of
            None \<Rightarrow> True
          | Some v \<Rightarrow>
              (case strptime_json v of
                 Inl e \<Rightarrow> False
               | Inr bound \<Rightarrow>
                   (case strptime (arrival_datetime f) of
                      None \<Rightarrow> False
                    | Some arr \<Rightarrow> arr \<le> bound))) :: error + bool)"
  using assms(1)
proof (cases rule: wf_bound_cases)
  case 1
  then show ?thesis using assms(3) by simp
next
  case (2 v dt)
  then show ?thesis using assms(2,3) by (auto simp add: not_less)
qed

lemma price_check_satisfies:
  assumes "wf_query q" "wf_flight f"
  shows "(case q ''price'' of
            None \<Rightarrow> Inr True
          | Some v \<Rightarrow>
              (case float_of_price (price f) of
                 Inl e \<Rightarrow> Inl e
               | Inr x \<Rightarrow>
                   (case py_float v of
                      Inl e \<Rightarrow> Inl e
                    | Inr y \<Rightarrow> Inr (\<not> flt_gt x y)))) =
         (Inr (case q ''price'' of
            None \<Rightarrow> True
          | Some v \<Rightarrow>
              (case py_float v of
                 Inl e \<Rightarrow> False
               | Inr bound \<Rightarrow>
                   (case price f of
                      None \<Rightarrow> False
                    | Some p \<Rightarrow> flt_le p bound))) :: error + bool)"
  using assms
  by (auto simp add: wf_query_def wf_flight_def float_of_price_def flt_not_gt
      split: option.splits sum.splits)

lemma flight_matches_satisfies:
  assumes "wf_query q" "wf_flight f"
    and "filter_bound q ''departure_datetime'' = Inr d"
    and "filter_bound q ''arrival_datetime'' = Inr a"
  shows "flight_matches q d a f = Inr (satisfies q f)"
proof -
  have w: "wf_bound q ''departure_datetime''" "wf_bound q ''arrival_datetime''"
    "strptime (departure_datetime f) \<noteq> None" "strptime (arrival_datetime f) \<noteq> None"
    using assms(1,2) by (simp_all add: wf_query_def wf_flight_def)
  define E where "E = exact_matches q f [''flight_id'', ''origin'', ''destination'']"
  define D where "D = (case q ''departure_datetime'' of
            None \<Rightarrow> True
          | Some v \<Rightarrow>
              (case strptime_json v of
                 Inl e \<Rightarrow> False
               | Inr bound \<Rightarrow>
                   (case strptime (departure_datetime f) of
                      None \<Rightarrow> False
                    | Some dep \<Rightarrow> bound \<le> dep)))"
  define A where "A = (case q ''arrival_datetime'' of
            None \<Rightarrow> True
          | Some v \<Rightarrow>
              (case strptime_json v of
                 Inl e \<Rightarrow> False
               | Inr bound \<Rightarrow>
                   (case strptime (arrival_datetime f) of
                      None \<Rightarrow> False
                    | Some arr \<Rightarrow> arr \<le> bound)))"
  define P where "P = (case q ''price'' of
            None \<Rightarrow> True
          | Some v \<Rightarrow>
              (case py_float v of
                 Inl e \<Rightarrow> False
               | Inr bound \<Rightarrow>
                   (case price f of
                      None \<Rightarrow> False
                    | Some p \<Rightarrow> flt_le p bound)))"
  have m: "flight_matches q d a f =
      (if \<not> E then Inr False
       else case (Inr D :: error + bool) of Inl e \<Rightarrow> Inl e | Inr False \<Rightarrow> Inr False
            | Inr True \<Rightarrow> (case (Inr A :: error + bool) of Inl e \<Rightarrow> Inl e
                 | Inr False \<Rightarrow> Inr False | Inr True \<Rightarrow> Inr P))"
    unfolding flight_matches_def E_def D_def A_def P_def
      dep_check_satisfies [OF w(1) w(3) assms(3)]
      arr_check_satisfies [OF w(2) w(4) assms(4)]
      price_check_satisfies [OF assms(1,2)]
    by (rule refl)
  have s: "satisfies q f = (E \<and> D \<and> A \<and> P)"
    unfolding satisfies_def E_def D_def A_def P_def exact_matches_three by simp
  show ?thesis
    unfolding m s by (cases E; cases D; cases A) simp_all
qed

lemma filter_loop_pred:
  "\<forall>f \<in> set flights. flight_matches q d a f = Inr (P f) \<Longrightarrow>
   filter_loop q d a flights acc = Inr (acc @ filter P flights)"
  by (induction flights arbitrary: acc) simp_all

lemma satisfies_no_keys:
  "\<forall>k \<in> recognized_keys. q k = None \<Longrightarrow> satisfies q f"
  by (simp add: satisfies_def equals_field_def recognized_keys_def)

text \<open>
  Claim C5, for well-formed input. For flights whose timestamps parse and whose price is a
  number, and a query whose range bounds parse and whose price bound converts to a number,
  the matcher returns the flights that satisfy every filter present, in their order:
  equality for \<^verbatim>\<open>flight_id\<close>, \<^verbatim>\<open>origin\<close> and \<^verbatim>\<open>destination\<close>, a departure not
  before the bound, an arrival not after the bound, a price not above the bound. A query
  with none of the six keys returns every flight.
\<close>

theorem filter_flights_matching_subsequence:
  assumes "wf_query q" and "\<forall>f \<in> set flights. wf_flight f"
  shows "filter_flights flights q = Inr (filter (satisfies q) flights)
       \<and> subseq (filter (satisfies q) flights) flights
       \<and> ((\<forall>k \<in> recognized_keys. q k = None) \<longrightarrow> filter_flights flights q = Inr flights)"
proof -
  obtain d where d: "filter_bound q ''departure_datetime'' = Inr d"
    using assms(1) by (auto simp add: wf_query_def elim: wf_bound_cases)
  obtain a where a: "filter_bound q ''arrival_datetime'' = Inr a"
    using assms(1) by (auto simp add: wf_query_def elim: wf_bound_cases)
  have "\<forall>f \<in> set flights. flight_matches q d a f = Inr (satisfies q f)"
    using assms flight_matches_satisfies [OF _ _ d a] by blast
  then have "filter_loop q d a flights [] = Inr ([] @ filter (satisfies q) flights)"
    by (rule filter_loop_pred)
  then have r: "filter_flights flights q = Inr (filter (satisfies q) flights)"
    by (simp add: filter_flights_def d a)
  have "(\<forall>k \<in> recognized_keys. q k = None) \<longrightarrow> filter (satisfies q) flights = flights"
    by (simp add: satisfies_no_keys)
  then show ?thesis
    using r by auto
qed

theorem filter_flights_matching_subsequence_witness:
  "wf_query (Map.empty(''origin'' \<mapsto> JStr ''LHR'',
       ''departure_datetime'' \<mapsto> JStr ''2024-03-10 08:00'',
       ''price'' \<mapsto> JFloat (Finite 100))) \<and>
   wf_flight \<lparr>flight_id = ''AB123'', origin = ''LHR'', destination = ''JFK'',
       departure_datetime = ''2024-03-10 08:00'', arrival_datetime = ''2024-03-10 10:00'',
       price = Some (Finite (25 / 2))\<rparr> \<and>
   wf_flight \<lparr>flight_id = ''CD456'', origin = ''FRA'', destination = ''JFK'',
       departure_datetime = ''2024-03-10 08:00'', arrival_datetime = ''2024-03-10 10:00'',
       price = Some (Finite (25 / 2))\<rparr> \<and>
   wf_flight \<lparr>flight_id = ''EF789'', origin = ''LHR'', destination = ''JFK'',
       departure_datetime = ''2024-03-10 08:00'', arrival_datetime = ''2024-03-10 10:00'',
       price = Some (Finite 250)\<rparr> \<and>
   filter_flights
     [\<lparr>flight_id = ''AB123'', origin = ''LHR'', destination = ''JFK'',
       departure_datetime = ''2024-03-10 08:00'', arrival_datetime = ''2024-03-10 10:00'',
       price = Some (Finite (25 / 2))\<rparr>,
      \<lparr>flight_id = ''CD456'', origin = ''FRA'', destination = ''JFK'',
       departure_datetime = ''2024-03-10 08:00'', arrival_datetime = ''2024-03-10 10:00'',
       price = Some (Finite (25 / 2))\<rparr>,
      \<lparr>flight_id = ''EF789'', origin = ''LHR'', destination = ''JFK'',
       departure_datetime = ''2024-03-10 08:00'', arrival_datetime = ''2024-03-10 10:00'',
       price = Some (Finite 250)\<rparr>]
     (Map.empty(''origin'' \<mapsto> JStr ''LHR'',
       ''departure_datetime'' \<mapsto> JStr ''2024-03-10 08:00'',
       ''price'' \<mapsto> JFloat (Finite 100))) =
   Inr [\<lparr>flight_id = ''AB123'', origin = ''LHR'', destination = ''JFK'',
       departure_datetime = ''2024-03-10 08:00'', arrival_datetime = ''2024-03-10 10:00'',
       price = Some (Finite (25 / 2))\<rparr>]"
proof -
  define q where "q = Map.empty(''origin'' \<mapsto> JStr ''LHR'',
       ''departure_datetime'' \<mapsto> JStr ''2024-03-10 08:00'',
       ''price'' \<mapsto> JFloat (Finite 100))"
  define f1 where "f1 = \<lparr>flight_id = ''AB123'', origin = ''LHR'', destination = ''JFK'',
       departure_datetime = ''2024-03-10 08:00'', arrival_datetime = ''2024-03-10 10:00'',
       price = Some (Finite (25 / 2))\<rparr>"
  define f2 where "f2 = \<lparr>flight_id = ''CD456'', origin = ''FRA'', destination = ''JFK'',
       departure_datetime = ''2024-03-10 08:00'', arrival_datetime = ''2024-03-10 10:00'',
       price = Some (Finite (25 / 2))\<rparr>"
  define f3 where "f3 = \<lparr>flight_id = ''EF789'', origin = ''LHR'', destination = ''JFK'',
       departure_datetime = ''2024-03-10 08:00'', arrival_datetime = ''2024-03-10 10:00'',
       price = Some (Finite 250)\<rparr>"
  have wq: "wf_query q"
    by (simp add: wf_query_def wf_bound_def q_def strptime_json_def strptime_0800 py_float_def)
  have wf: "wf_flight f1" "wf_flight f2" "wf_flight f3"
    by (simp_all add: wf_flight_def f1_def f2_def f3_def strptime_0800 strptime_1000)
  then have all: "\<forall>f \<in> set [f1, f2, f3]. wf_flight f"
    by simp
  have sat: "satisfies q f1" "\<not> satisfies q f2" "\<not> satisfies q f3"
    by (simp_all add: satisfies_def equals_field_def q_def f1_def f2_def f3_def strptime_json_def
        strptime_0800 strptime_1000 py_float_def flt_le_def)
  have "filter_flights [f1, f2, f3] q = Inr [f1]"
    using filter_flights_matching_subsequence [OF wq all] sat by simp
  then show ?thesis
    using wq wf unfolding q_def f1_def f2_def f3_def by blast
qed

text \<open>
  The claim C5 as it was stated speaks of every query. A query whose departure bound is
  not a timestamp gets no list of matches: the call raises, with or without flights.
\<close>

theorem malformed_query_returns_no_matches:
  "filter_flights [] (Map.empty(''departure_datetime'' \<mapsto> JStr ''next week'')) = Inl ValueError \<and>
   filter_flights
     [\<lparr>flight_id = ''AB123'', origin = ''LHR'', destination = ''JFK'',
       departure_datetime = ''2024-03-10 08:00'', arrival_datetime = ''2024-03-10 10:00'',
       price = Some (Finite (25 / 2))\<rparr>]
     (Map.empty(''departure_datetime'' \<mapsto> JStr ''next week'')) = Inl ValueError"
proof -
  have "strptime ''next week'' = None"
    by (simp add: strptime_defs)
  then show ?thesis
    by (simp add: filter_flights_def filter_bound_def strptime_json_def)
qed

section \<open>Adding a filter\<close>

lemma exact_matches_Cons:
  "exact_matches q f (x # ks) =
     ((case q x of None \<Rightarrow> True | Some v \<Rightarrow> flight_get f x = Some v) \<and> exact_matches q f ks)"
  by (auto split: option.splits)

lemma exact_matches_mono:
  "q k = None \<Longrightarrow> exact_matches (q(k \<mapsto> v)) f ks \<Longrightarrow> exact_matches q f ks"
proof (induction ks)
  case Nil
  then show ?case by simp
next
  case (Cons x ks)
  have t: "exact_matches (q(k \<mapsto> v)) f ks"
    and h: "(case (q(k \<mapsto> v)) x of None \<Rightarrow> True | Some v \<Rightarrow> flight_get f x = Some v)"
    using Cons.prems(2) unfolding exact_matches_Cons by simp_all
  have r: "exact_matches q f ks"
    using Cons.IH [OF Cons.prems(1) t] .
  have "(case q x of None \<Rightarrow> True | Some v \<Rightarrow> flight_get f x = Some v)"
  proof (cases "x = k")
    case True
    then show ?thesis using Cons.prems(1) by simp
  next
    case False
    then show ?thesis using h by simp
  qed
  then show ?case
    unfolding exact_matches_Cons using r by simp
qed

lemma filter_bound_mono:
  assumes "q k = None" "filter_bound (q(k \<mapsto> v)) key = Inr d'" "filter_bound q key = Inr d"
  shows "d = None \<or> d = d'"
  using assms by (cases "key = k") (auto simp add: filter_bound_def)

lemma flight_matches_mono:
  assumes "q k = None" "d = None \<or> d = d'" "a = None \<or> a = a'"
    and "flight_matches (q(k \<mapsto> v)) d' a' f = Inr True"
  shows "flight_matches q d a f = Inr True"
proof -
  let ?q' = "q(k \<mapsto> v)"
  define ks where "ks = [''flight_id'', ''origin'', ''destination'']"
  let ?dep = "\<lambda>d. (case d of
            None \<Rightarrow> Inr True
          | Some dep_bound \<Rightarrow>
              (case strptime (departure_datetime f) of
                 None \<Rightarrow> Inl ValueError
               | Some flight_dep \<Rightarrow> Inr (\<not> flight_dep < dep_bound))) :: error + bool"
  let ?arr = "\<lambda>a. (case a of
            None \<Rightarrow> Inr True
          | Some arr_bound \<Rightarrow>
              (case strptime (arrival_datetime f) of
                 None \<Rightarrow> Inl ValueError
               | Some flight_arr \<Rightarrow> Inr (\<not> flight_arr > arr_bound))) :: error + bool"
  let ?price = "\<lambda>q :: query. (case q ''price'' of
            None \<Rightarrow> Inr True
          | Some v \<Rightarrow>
              (case float_of_price (price f) of
                 Inl e \<Rightarrow> Inl e
               | Inr x \<Rightarrow>
                   (case py_float v of
                      Inl e \<Rightarrow> Inl e
                    | Inr y \<Rightarrow> Inr (\<not> flt_gt x y)))) :: error + bool"
  have fm: "\<And>q d a. flight_matches q d a f =
      (if \<not> exact_matches q f ks then Inr False
       else case ?dep d of Inl e \<Rightarrow> Inl e | Inr False \<Rightarrow> Inr False
            | Inr True \<Rightarrow> (case ?arr a of Inl e \<Rightarrow> Inl e | Inr False \<Rightarrow> Inr False
                 | Inr True \<Rightarrow> ?price q))"
    by (simp only: flight_matches_def ks_def)
  have e': "exact_matches ?q' f ks" and d': "?dep d' = Inr True"
    and a': "?arr a' = Inr True" and p': "?price ?q' = Inr True"
    using assms(4) unfolding fm by (auto split: if_splits sum.splits bool.splits)
  have e: "exact_matches q f ks"
    using exact_matches_mono [OF assms(1) e'] .
  have d: "?dep d = Inr True"
    using assms(2) d' by auto
  have a: "?arr a = Inr True"
    using assms(3) a' by auto
  have p: "?price q = Inr True"
    using assms(1) p' by (cases "k = ''price''") auto
  show ?thesis
    unfolding fm using e d a p by simp
qed

lemma filter_loop_result:
  "filter_loop q d a flights acc = Inr ms \<Longrightarrow>
   ms = acc @ filter (\<lambda>f. flight_matches q d a f = Inr True) flights"
proof (induction flights arbitrary: acc)
  case Nil
  then show ?case by simp
next
  case (Cons f flights)
  then obtain ok where ok: "flight_matches q d a f = Inr ok"
    by (cases "flight_matches q d a f") auto
  then have "filter_loop q d a flights (if ok then acc @ [f] else acc) = Inr ms"
    using Cons.prems by simp
  then have "ms = (if ok then acc @ [f] else acc) @
      filter (\<lambda>f. flight_matches q d a f = Inr True) flights"
    by (rule Cons.IH)
  then show ?case
    using ok by simp
qed

lemma subseq_filter_mono:
  "(\<And>x. x \<in> set xs \<Longrightarrow> P x \<Longrightarrow> Q x) \<Longrightarrow> subseq (filter P xs) (filter Q xs)"
  by (induction xs) auto

text \<open>
  Claim C6. When a query and the query with one more key both return, the matches of
  the larger query are a subsequence of the matches of the smaller one, so there are no
  more of them.
\<close>

theorem adding_filter_never_adds_matches:
  assumes "q k = None"
    and "filter_flights flights q = Inr ms"
    and "filter_flights flights (q(k \<mapsto> v)) = Inr ms'"
  shows "subseq ms' ms \<and> length ms' \<le> length ms"
proof -
  obtain d a where d: "filter_bound q ''departure_datetime'' = Inr d"
    and a: "filter_bound q ''arrival_datetime'' = Inr a"
    and l: "filter_loop q d a flights [] = Inr ms"
    using assms(2) by (auto simp add: filter_flights_def split: sum.splits)
  obtain d' a' where d': "filter_bound (q(k \<mapsto> v)) ''departure_datetime'' = Inr d'"
    and a': "filter_bound (q(k \<mapsto> v)) ''arrival_datetime'' = Inr a'"
    and l': "filter_loop (q(k \<mapsto> v)) d' a' flights [] = Inr ms'"
    using assms(3) by (auto simp add: filter_flights_def split: sum.splits)
  have dd: "d = None \<or> d = d'"
    using filter_bound_mono [OF assms(1) d' d] .
  have aa: "a = None \<or> a = a'"
    using filter_bound_mono [OF assms(1) a' a] .
  have ms: "ms = filter (\<lambda>f. flight_matches q d a f = Inr True) flights"
    using filter_loop_result [OF l] by simp
  have ms': "ms' = filter (\<lambda>f. flight_matches (q(k \<mapsto> v)) d' a' f = Inr True) flights"
    using filter_loop_result [OF l'] by simp
  have "subseq ms' ms"
    unfolding ms ms'
    by (rule subseq_filter_mono)
       (rule flight_matches_mono [where q = q and k = k and v = v and d' = d' and a' = a',
           OF assms(1) dd aa])
  then show ?thesis
    using list_emb_length by blast
qed

theorem adding_filter_never_adds_matches_witness:
  "(Map.empty(''origin'' \<mapsto> JStr ''LHR'')) ''price'' = None \<and>
   filter_flights
     [\<lparr>flight_id = ''AB123'', origin = ''LHR'', destination = ''JFK'',
       departure_datetime = ''2024-03-10 08:00'', arrival_datetime = ''2024-03-10 10:00'',
       price = Some (Finite (25 / 2))\<rparr>,
      \<lparr>flight_id = ''EF789'', origin = ''LHR'', destination = ''JFK'',
       departure_datetime = ''2024-03-10 08:00'', arrival_datetime = ''2024-03-10 10:00'',
       price = Some (Finite 250)\<rparr>]
     (Map.empty(''origin'' \<mapsto> JStr ''LHR'')) =
   Inr [\<lparr>flight_id = ''AB123'', origin = ''LHR'', destination = ''JFK'',
       departure_datetime = ''2024-03-10 08:00'', arrival_datetime = ''2024-03-10 10:00'',
       price = Some (Finite (25 / 2))\<rparr>,
      \<lparr>flight_id = ''EF789'', origin = ''LHR'', destination = ''JFK'',
       departure_datetime = ''2024-03-10 08:00'', arrival_datetime = ''2024-03-10 10:00'',
       price = Some (Finite 250)\<rparr>] \<and>
   filter_flights
     [\<lparr>flight_id = ''AB123'', origin = ''LHR'', destination = ''JFK'',
       departure_datetime = ''2024-03-10 08:00'', arrival_datetime = ''2024-03-10 10:00'',
       price = Some (Finite (25 / 2))\<rparr>,
      \<lparr>flight_id = ''EF789'', origin = ''LHR'', destination = ''JFK'',
       departure_datetime = ''2024-03-10 08:00'', arrival_datetime = ''2024-03-10 10:00'',
       price = Some (Finite 250)\<rparr>]
     (Map.empty(''origin'' \<mapsto> JStr ''LHR'', ''price'' \<mapsto> JFloat (Finite 100))) =
   Inr [\<lparr>flight_id = ''AB123'', origin = ''LHR'', destination = ''JFK'',
       departure_datetime = ''2024-03-10 08:00'', arrival_datetime = ''2024-03-10 10:00'',
       price = Some (Finite (25 / 2))\<rparr>] \<and>
   length [\<lparr>flight_id = ''AB123'', origin = ''LHR'', destination = ''JFK'',
       departure_datetime = ''2024-03-10 08:00'', arrival_datetime = ''2024-03-10 10:00'',
       price = Some (Finite (25 / 2))\<rparr>]
   \<le> length [\<lparr>flight_id = ''AB123'', origin = ''LHR'', destination = ''JFK'',
       departure_datetime = ''2024-03-10 08:00'', arrival_datetime = ''2024-03-10 10:00'',
       price = Some (Finite (25 / 2))\<rparr>,
      \<lparr>flight_id = ''EF789'', origin = ''LHR'', destination = ''JFK'',
       departure_datetime = ''2024-03-10 08:00'', arrival_datetime = ''2024-03-10 10:00'',
       price = Some (Finite 250)\<rparr>]"
proof -
  define q where "q = Map.empty(''origin'' \<mapsto> JStr ''LHR'')"
  define f1 where "f1 = \<lparr>flight_id = ''AB123'', origin = ''LHR'', destination = ''JFK'',
       departure_datetime = ''2024-03-10 08:00'', arrival_datetime = ''2024-03-10 10:00'',
       price = Some (Finite (25 / 2))\<rparr>"
  define f3 where "f3 = \<lparr>flight_id = ''EF789'', origin = ''LHR'', destination = ''JFK'',
       departure_datetime = ''2024-03-10 08:00'', arrival_datetime = ''2024-03-10 10:00'',
       price = Some (Finite 250)\<rparr>"
  have k: "q ''price'' = None"
    by (simp add: q_def)
  have a: "filter_flights [f1, f3] q = Inr [f1, f3]"
    by (simp add: filter_eval_defs q_def f1_def f3_def)
  have b: "filter_flights [f1, f3] (q(''price'' \<mapsto> JFloat (Finite 100))) = Inr [f1]"
    by (simp add: filter_eval_defs q_def f1_def f3_def)
  have "subseq [f1] [f1, f3] \<and> length [f1] \<le> length [f1, f3]"
    by (rule adding_filter_never_adds_matches [OF k a b])
  then show ?thesis
    using k a b unfolding q_def f1_def f3_def by blast
qed

end
